theory Spec2Isabelle
  imports Main "HOL-Library.Sublist"
begin

section \<open>Data model (types.ts)\<close>

text \<open>
  The enum and the options interface stand at the end of \<^verbatim>\<open>src/unnamed/part_002\<close>.
  \<^verbatim>\<open>DataFormat\<close> is a TypeScript string enum: at run time a format is the string
  itself, and a value outside the enum is still a string. A JavaScript string is
  modelled by the list of its code units; the 8-bit characters of HOL cover the code
  units up to U+00FF.
\<close>

type_synonym DataFormat = string

definition JSON :: DataFormat where
  "JSON = ''JSON''"

definition CSV :: DataFormat where
  "CSV = ''CSV''"

definition XML :: DataFormat where
  "XML = ''XML''"

definition TXT :: DataFormat where
  "TXT = ''TXT''"

text \<open>\<^verbatim>\<open>Object.values(DataFormat)\<close>, the choices of the format selector.\<close>

definition DataFormat_values :: "DataFormat list" where
  "DataFormat_values = [JSON, CSV, XML, TXT]"

record GenerationOptions =
  dateFormat :: string
  decimalPlaces :: string

section \<open>Export helpers (utils/fileUtils.ts)\<close>

definition getMimeType :: "DataFormat \<Rightarrow> string" where
  "getMimeType format =
     (if format = JSON then ''application/json''
      else if format = CSV then ''text/csv''
      else if format = XML then ''application/xml''
      else if format = TXT then ''text/plain''
      else ''text/plain'')"

text \<open>
  \<^verbatim>\<open>String.prototype.toLowerCase\<close> on code units below 256: the letters A to Z and
  the capital letters of Latin-1 (U+00C0 to U+00DE without the multiplication sign
  U+00D7) move up by 32, every other character stays.
\<close>

definition upperCase :: string where
  "upperCase = ''ABCDEFGHIJKLMNOPQRSTUVWXYZ'' @
     [CHR 0xC0, CHR 0xC1, CHR 0xC2, CHR 0xC3, CHR 0xC4, CHR 0xC5, CHR 0xC6, CHR 0xC7,
      CHR 0xC8, CHR 0xC9, CHR 0xCA, CHR 0xCB, CHR 0xCC, CHR 0xCD, CHR 0xCE, CHR 0xCF,
      CHR 0xD0, CHR 0xD1, CHR 0xD2, CHR 0xD3, CHR 0xD4, CHR 0xD5, CHR 0xD6, CHR 0xD8,
      CHR 0xD9, CHR 0xDA, CHR 0xDB, CHR 0xDC, CHR 0xDD, CHR 0xDE]"

definition lowerCase :: string where
  "lowerCase = ''abcdefghijklmnopqrstuvwxyz'' @
     [CHR 0xE0, CHR 0xE1, CHR 0xE2, CHR 0xE3, CHR 0xE4, CHR 0xE5, CHR 0xE6, CHR 0xE7,
      CHR 0xE8, CHR 0xE9, CHR 0xEA, CHR 0xEB, CHR 0xEC, CHR 0xED, CHR 0xEE, CHR 0xEF,
      CHR 0xF0, CHR 0xF1, CHR 0xF2, CHR 0xF3, CHR 0xF4, CHR 0xF5, CHR 0xF6, CHR 0xF8,
      CHR 0xF9, CHR 0xFA, CHR 0xFB, CHR 0xFC, CHR 0xFD, CHR 0xFE]"

definition toLowerChar :: "char \<Rightarrow> char" where
  "toLowerChar c = (case map_of (zip upperCase lowerCase) c of Some l \<Rightarrow> l | None \<Rightarrow> c)"

definition toLowerCase :: "string \<Rightarrow> string" where
  "toLowerCase s = map toLowerChar s"

definition getFileExtension :: "DataFormat \<Rightarrow> string" where
  "getFileExtension format = toLowerCase format"

text \<open>
  The part of the browser that \<^verbatim>\<open>downloadData\<close> and the copy button act on: the
  object URLs handed out by \<^verbatim>\<open>URL.createObjectURL\<close>, the children appended to
  \<^verbatim>\<open>document.body\<close>, the files saved to disk and the clipboard.
\<close>

record Blob =
  blobParts :: string
  blobType :: string

record anchor =
  href :: nat
  download :: string

record savedFile =
  fileName :: string
  fileType :: string
  fileBody :: string

record browser =
  nextURL :: nat
  objectURLs :: "(nat \<times> Blob) list"
  body :: "anchor list"
  saved :: "savedFile list"
  clipboard :: string

definition createObjectURL :: "Blob \<Rightarrow> browser \<Rightarrow> nat \<times> browser" where
  "createObjectURL b w =
     (nextURL w, w\<lparr>nextURL := Suc (nextURL w), objectURLs := (nextURL w, b) # objectURLs w\<rparr>)"

definition revokeObjectURL :: "nat \<Rightarrow> browser \<Rightarrow> browser" where
  "revokeObjectURL url w = w\<lparr>objectURLs := filter (\<lambda>e. fst e \<noteq> url) (objectURLs w)\<rparr>"

definition appendChild :: "anchor \<Rightarrow> browser \<Rightarrow> browser" where
  "appendChild a w = w\<lparr>body := body w @ [a]\<rparr>"

definition removeChild :: "anchor \<Rightarrow> browser \<Rightarrow> browser" where
  "removeChild a w = w\<lparr>body := remove1 a (body w)\<rparr>"

text \<open>Clicking an anchor that has a \<^verbatim>\<open>download\<close> attribute saves the blob behind its URL.\<close>

definition click :: "anchor \<Rightarrow> browser \<Rightarrow> browser" where
  "click a w =
     (case map_of (objectURLs w) (href a) of
        None \<Rightarrow> w
      | Some b \<Rightarrow>
          w\<lparr>saved := saved w @
            [\<lparr>fileName = download a, fileType = blobType b, fileBody = blobParts b\<rparr>]\<rparr>)"

definition downloadData :: "string \<Rightarrow> DataFormat \<Rightarrow> browser \<Rightarrow> browser" where
  "downloadData content format w =
     (if content = [] then w
      else
        let mimeType = getMimeType format;
            extension = getFileExtension format;
            filename = ''dummy-data.'' @ extension;
            blob = \<lparr>blobParts = content, blobType = mimeType\<rparr>;
            (url, w1) = createObjectURL blob w;
            a = \<lparr>href = url, download = filename\<rparr>;
            w2 = appendChild a w1;
            w3 = click a w2;
            w4 = removeChild a w3
        in revokeObjectURL url w4)"

section \<open>Prompt compiler (services/geminiService.ts, first half of generateDummyData)\<close>

text \<open>
  The service is the second module in \<^verbatim>\<open>src/components/ErrorAlert.tsx\<close>.
  The \<^verbatim>\<open>switch\<close> over the format has no \<^verbatim>\<open>default\<close> branch: for a value outside the
  enum \<^verbatim>\<open>specificInstructions\<close> keeps its initial value, the empty string.
\<close>

definition specificInstructions :: "DataFormat \<Rightarrow> string" where
  "specificInstructions format =
     (if format = JSON then
        ''\<newline>'' @
        ''      - Generate valid JSON syntax.\<newline>'' @
        ''      - Support nested objects and arrays deeply if requested.\<newline>'' @
        ''      - Use specific data types (boolean, numbers, null) correctly, do not wrap everything in strings unless necessary.\<newline>'' @
        ''      ''
      else if format = CSV then
        ''\<newline>'' @
        ''      - Generate valid CSV with a header row.\<newline>'' @
        ''      - If nested data is requested, flatten it using dot notation for headers (e.g., 'address.city') or understandable conventions.\<newline>'' @
        ''      - Enclose strings containing commas in quotes.\<newline>'' @
        ''      ''
      else if format = XML then
        ''\<newline>'' @
        ''      - Generate valid XML with a single root element (e.g., <root> or <data> if not specified).\<newline>'' @
        ''      - Use semantic tags based on property names.\<newline>'' @
        ''      - Handle nested structures as nested elements.\<newline>'' @
        ''      ''
      else if format = TXT then
        ''\<newline>'' @
        ''      - Format as plain text or structured text as requested (e.g., lists, paragraphs).\<newline>'' @
        ''      ''
      else [])"

definition formattingRules :: "GenerationOptions \<Rightarrow> string" where
  "formattingRules options =
     ''\<newline>'' @
     ''  STRICT FORMATTING RULES:\<newline>'' @
     ''  1. **Date Format**: All date fields must strictly follow this format: \"'' @
     dateFormat options @
     ''\". \<newline>'' @
     ''     - If \"Unix Timestamp\" is requested, return an integer (milliseconds since epoch).\<newline>'' @
     ''     - If \"ISO 8601\" is requested, use YYYY-MM-DDTHH:mm:ss.sssZ.\<newline>'' @
     ''  2. **Number Precision**: '' @
     (if decimalPlaces options \<noteq> ''default''
      then ''Round all floating-point numbers to exactly '' @ decimalPlaces options @
           '' decimal places.''
      else ''Use standard precision for numbers.'') @
     ''\<newline>'' @
     ''  ''"

definition systemInstruction :: "DataFormat \<Rightarrow> GenerationOptions \<Rightarrow> string" where
  "systemInstruction format options =
     ''You are a sophisticated dummy data generator engine.\<newline>'' @
     ''  Your task is to generate realistic, diverse, and structurally correct data based on the user's description.\<newline>'' @
     ''  \<newline>'' @
     ''  CORE RULES:\<newline>'' @
     ''  1. Output ONLY the raw data. Do NOT include markdown code blocks (like ```json), explanatory text, or conversational filler.\<newline>'' @
     ''  2. **Complex Structures**: You are capable of generating deeply nested JSON, relational data, and complex object schemas.\<newline>'' @
     ''  3. **Data Types**: Respect requested types (Enums, Booleans, Floats, Dates). \<newline>'' @
     ''     - If a user asks for \"status (Active, Inactive)\", randomly assign these values.\<newline>'' @
     ''     - If a user asks for \"boolean\", output raw true/false.\<newline>'' @
     ''  4. **Quantity**: Adhere strictly to the requested number of items.\<newline>'' @
     ''  \<newline>'' @
     ''  '' @
     formattingRules options @
     ''\<newline>'' @
     ''\<newline>'' @
     ''  FORMAT SPECIFIC INSTRUCTIONS:\<newline>'' @
     ''  '' @
     specificInstructions format @
     ''\<newline>'' @
     ''  ''"

definition fullPrompt :: "string \<Rightarrow> DataFormat \<Rightarrow> string" where
  "fullPrompt userPrompt format =
     ''Generate data in '' @ format @ '' format based on this request: \"'' @ userPrompt @ ''\"''"

text \<open>
  The values the form (components/DataInputForm.tsx, \<^verbatim>\<open>src/unnamed/part_001\<close>) offers for
  the two options: the
  \<^verbatim>\<open>value\<close> attributes of its date-format and decimal-precision selectors.
\<close>

definition dateFormatChoices :: "string list" where
  "dateFormatChoices =
     [''ISO 8601'', ''YYYY-MM-DD'', ''MM/DD/YYYY'', ''DD/MM/YYYY'', ''Unix Timestamp'']"

definition decimalPlacesChoices :: "string list" where
  "decimalPlacesChoices = [''default'', ''0'', ''1'', ''2'', ''3'', ''4'']"

text \<open>
  \<^verbatim>\<open>s.split('\n')\<close> and \<^verbatim>\<open>lines.join('\n')\<close>, as the display uses them: the empty
  string splits into one empty line, and a text that ends with a line break has an
  empty last line.
\<close>

fun splitLines :: "string \<Rightarrow> string list" where
  "splitLines [] = [[]]"
| "splitLines (c # cs) =
     (if c = CHR 0x0A then [] # splitLines cs
      else (case splitLines cs of [] \<Rightarrow> [[c]] | l # ls \<Rightarrow> (c # l) # ls))"

fun joinLines :: "string list \<Rightarrow> string" where
  "joinLines [] = []"
| "joinLines [l] = l"
| "joinLines (l # ls) = l @ [CHR 0x0A] @ joinLines ls"

text \<open>
  The single instructions of a format: the lines of its \<^verbatim>\<open>specificInstructions\<close>
  without their indentation, blank lines dropped.
\<close>

definition guidance :: "DataFormat \<Rightarrow> string list" where
  "guidance format =
     filter (\<lambda>l. l \<noteq> [])
       (map (dropWhile (\<lambda>c. c = CHR '' '')) (splitLines (specificInstructions format)))"

text \<open>
  The rounding instruction as the template of \<^const>\<open>formattingRules\<close> writes it for N: a
  fixed stem, N, and a fixed ending.
\<close>

definition roundingStem :: string where
  "roundingStem = ''Round all floating-point numbers to exactly ''"

definition roundingEnding :: string where
  "roundingEnding = '' decimal places.''"

definition roundingInstruction :: "string \<Rightarrow> string" where
  "roundingInstruction n = roundingStem @ n @ roundingEnding"

text \<open>
  The values of \<^verbatim>\<open>decimalPlaces\<close> in the data model: \<^verbatim>\<open>"default"\<close> or a string of
  decimal digits.
\<close>

definition digitsOnly :: "string \<Rightarrow> bool" where
  "digitsOnly s \<longleftrightarrow> list_all (\<lambda>c. c \<in> set ''0123456789'') s"

definition decimalPlacesValue :: "string \<Rightarrow> bool" where
  "decimalPlacesValue p \<longleftrightarrow> p = ''default'' \<or> digitsOnly p"

text \<open>A text carries guidance when an instruction line of one of the four formats occurs in it.\<close>

definition carriesGuidance :: "string \<Rightarrow> bool" where
  "carriesGuidance t \<longleftrightarrow>
     list_ex (\<lambda>g. list_ex (\<lambda>l. sublist l t) (guidance g)) DataFormat_values"

section \<open>Streaming client (services/geminiService.ts, second half of generateDummyData)\<close>

text \<open>
  What the external service does with a request is the environment of the program.
  \<^verbatim>\<open>generateContentStream\<close> either rejects, or yields a stream: the chunks that arrive
  and then the end of the stream or an error thrown while iterating. \<^verbatim>\<open>chunk.text\<close> is
  a string or undefined.
\<close>

datatype apiError = AuthError | QuotaError | NetworkError | MalformedResponse

datatype chunk = Chunk (chunk_text: "string option")

datatype response = Rejected apiError | Stream "chunk list" "apiError option"

record request =
  model :: string
  contents :: string
  config_systemInstruction :: string

text \<open>
  The outcome of an asynchronous call: the caller's state after the callbacks have
  run, the requests sent, the errors written to the console, and how the promise
  settles (\<^term>\<open>Inl e\<close>: rejected with \<^term>\<open>e\<close>, \<^term>\<open>Inr ()\<close>: resolved).
\<close>

record 's run =
  state :: 's
  requests :: "request list"
  console :: "apiError list"
  settled :: "apiError + unit"

text \<open>
  \<^verbatim>\<open>for await (const chunk of responseStream) { if (chunk.text) onChunk(chunk.text) }\<close>:
  an undefined or empty text is falsy and skipped.
\<close>

fun forAwait :: "(string \<Rightarrow> 's \<Rightarrow> 's) \<Rightarrow> chunk list \<Rightarrow> 's \<Rightarrow> 's" where
  "forAwait onChunk [] s = s"
| "forAwait onChunk (c # cs) s =
     forAwait onChunk cs
       (case chunk_text c of
          None \<Rightarrow> s
        | Some t \<Rightarrow> if t = [] then s else onChunk t s)"

text \<open>The body of the \<^verbatim>\<open>try\<close> block: the state reached and the error thrown, if any.\<close>

definition tryBlock ::
  "(request \<Rightarrow> response) \<Rightarrow> request \<Rightarrow> (string \<Rightarrow> 's \<Rightarrow> 's) \<Rightarrow> 's \<Rightarrow> 's \<times> apiError option" where
  "tryBlock ai req onChunk s =
     (case ai req of
        Rejected e \<Rightarrow> (s, Some e)
      | Stream chunks fin \<Rightarrow> (forAwait onChunk chunks s, fin))"

text \<open>
  The \<^verbatim>\<open>catch\<close> clause writes the error to the console and does not throw again, so
  the function returns normally on either path.
\<close>

definition generateDummyData ::
  "(request \<Rightarrow> response) \<Rightarrow> string \<Rightarrow> DataFormat \<Rightarrow> GenerationOptions \<Rightarrow>
     (string \<Rightarrow> 's \<Rightarrow> 's) \<Rightarrow> 's \<Rightarrow> 's run" where
  "generateDummyData ai userPrompt format options onChunk s =
     (let req = \<lparr>model = ''gemini-3-flash-preview'',
                 contents = fullPrompt userPrompt format,
                 config_systemInstruction = systemInstruction format options\<rparr>;
          (s', thrown) = tryBlock ai req onChunk s
      in \<lparr>state = s', requests = [req],
          console = (case thrown of None \<Rightarrow> [] | Some e \<Rightarrow> [e]),
          settled = Inr ()\<rparr>)"

section \<open>Display (components/DataDisplay.tsx)\<close>

text \<open>The component is \<^verbatim>\<open>src/unnamed/part_000\<close>.\<close>

fun showNat :: "nat \<Rightarrow> string" where
  "showNat n =
     (if n < 10 then [''0123456789'' ! n]
      else showNat (n div 10) @ [''0123456789'' ! (n mod 10)])"

definition showInt :: "int \<Rightarrow> string" where
  "showInt i = (if i < 0 then ''-'' @ showNat (nat (- i)) else showNat (nat i))"

text \<open>
  What the component renders, without the markup: the spinner, the placeholder, or
  the text shown and the notice under it. \<^verbatim>\<open>data.split('\n')\<close> is \<^const>\<open>splitLines\<close>,
  \<^verbatim>\<open>lines.slice(0, 50).join('\n')\<close> is \<^const>\<open>joinLines\<close> after \<^const>\<open>take\<close>.
\<close>

datatype view = LoadingSpinner | Placeholder | Output (displayData: string) (notice: "string option")

definition DataDisplay :: "string \<Rightarrow> bool \<Rightarrow> DataFormat \<Rightarrow> view" where
  "DataDisplay data isLoading format =
     (if isLoading \<and> data = [] then LoadingSpinner
      else if data = [] then Placeholder
      else
        let lines = splitLines data;
            isTruncated = (length lines > 50);
            displayData = (if isTruncated then joinLines (take 50 lines) else data);
            remainingLines = int (length lines) - 50
        in Output displayData
             (if isTruncated
              then Some (''Displaying first 50 lines. '' @ showInt remainingLines @
                         '' more line'' @ (if remainingLines > 1 then ''s'' else []) @
                         '' available in the full file.'')
              else None))"

text \<open>
  The two buttons act on the \<^verbatim>\<open>data\<close> prop, not on the text shown. The transient
  "Copied!" label and its two-second timer are not modelled.
\<close>

definition handleDownload :: "string \<Rightarrow> DataFormat \<Rightarrow> browser \<Rightarrow> browser" where
  "handleDownload data format w = downloadData data format w"

definition handleCopy :: "string \<Rightarrow> browser \<Rightarrow> browser" where
  "handleCopy data w = (if data = [] then w else w\<lparr>clipboard := data\<rparr>)"

section \<open>Session state and the generation handler (App.tsx)\<close>

text \<open>\<^verbatim>\<open>App\<close> is the last module in \<^verbatim>\<open>src/tests/geminiService.test.ts\<close>.\<close>

text \<open>\<^verbatim>\<open>String.prototype.trim\<close> on code units below 256.\<close>

definition isWhiteSpace :: "char \<Rightarrow> bool" where
  "isWhiteSpace c \<longleftrightarrow>
     c \<in> set [CHR 0x09, CHR 0x0A, CHR 0x0B, CHR 0x0C, CHR 0x0D, CHR 0x20, CHR 0xA0]"

definition trim :: "string \<Rightarrow> string" where
  "trim s = rev (dropWhile isWhiteSpace (rev (dropWhile isWhiteSpace s)))"

text \<open>
  The state hooks of \<^verbatim>\<open>App\<close>. The two option fields are those of
  \<^typ>\<open>GenerationOptions\<close>, which the handler passes on as \<^verbatim>\<open>{ dateFormat, decimalPlaces }\<close>.
\<close>

record App = GenerationOptions +
  prompt :: string
  format :: DataFormat
  generatedData :: string
  isLoading :: bool
  error :: "string option"

text \<open>The callback given to the streaming client: \<^verbatim>\<open>setGeneratedData(prev => prev + chunk)\<close>.\<close>

definition appendChunk :: "string \<Rightarrow> App \<Rightarrow> App" where
  "appendChunk chunk st = st\<lparr>generatedData := generatedData st @ chunk\<rparr>"

definition handleGenerate :: "(request \<Rightarrow> response) \<Rightarrow> App \<Rightarrow> App run" where
  "handleGenerate ai st =
     (if trim (prompt st) = [] then
        \<lparr>state = st\<lparr>error := Some ''Please enter a description for the data you want to generate.''\<rparr>,
         requests = [], console = [], settled = Inr ()\<rparr>
      else
        let st1 = st\<lparr>isLoading := True\<rparr>;
            st2 = st1\<lparr>error := None\<rparr>;
            st3 = st2\<lparr>generatedData := []\<rparr>;
            r = generateDummyData ai (prompt st) (format st)
                  \<lparr>dateFormat = dateFormat st, decimalPlaces = decimalPlaces st\<rparr>
                  appendChunk st3;
            st4 = (case settled r of
                     Inl err \<Rightarrow>
                       (state r)\<lparr>error := Some ''Failed to generate data. Please check your API key and try again.''\<rparr>
                   | Inr u \<Rightarrow> state r)
        in \<lparr>state = st4\<lparr>isLoading := False\<rparr>,
            requests = requests r,
            console = console r @ (case settled r of Inl err \<Rightarrow> [err] | Inr u \<Rightarrow> []),
            settled = Inr ()\<rparr>)"

text \<open>The values of the state hooks when the page loads.\<close>

definition initialApp :: App where
  "initialApp =
     \<lparr>dateFormat = ''ISO 8601'', decimalPlaces = ''default'',
      prompt = ''10 users with a name, email, address, and a unique ID from 1 to 10'',
      format = JSON, generatedData = [], isLoading = False, error = None\<rparr>"

section \<open>Vocabulary of the properties\<close>

text \<open>The chunks a response delivers before it ends or fails.\<close>

fun received :: "response \<Rightarrow> chunk list" where
  "received (Rejected e) = []"
| "received (Stream chunks fin) = chunks"

text \<open>
  The text fragments among the chunks: the texts of the chunks that carry a non-empty
  text, in arrival order.
\<close>

definition fragments :: "chunk list \<Rightarrow> string list" where
  "fragments chunks = filter (\<lambda>t. t \<noteq> []) (List.map_filter chunk_text chunks)"

text \<open>The request that \<^const>\<open>generateDummyData\<close> sends for its arguments.\<close>

definition requestFor :: "string \<Rightarrow> DataFormat \<Rightarrow> GenerationOptions \<Rightarrow> request" where
  "requestFor userPrompt fmt options =
     \<lparr>model = ''gemini-3-flash-preview'',
      contents = fullPrompt userPrompt fmt,
      config_systemInstruction = systemInstruction fmt options\<rparr>"

text \<open>
  The fixed text of the two templates around their interpolations, in the order in
  which \<^const>\<open>systemInstruction\<close> puts it together: the text before the quoted date
  format, the text between the quoted date format and the precision rule, the
  precision rule, the text up to the format-specific instructions, and the closing
  line.
\<close>

definition instructionHead :: string where
  "instructionHead =
     ''You are a sophisticated dummy data generator engine.\<newline>'' @
     ''  Your task is to generate realistic, diverse, and structurally correct data based on the user's description.\<newline>'' @
     ''  \<newline>'' @
     ''  CORE RULES:\<newline>'' @
     ''  1. Output ONLY the raw data. Do NOT include markdown code blocks (like ```json), explanatory text, or conversational filler.\<newline>'' @
     ''  2. **Complex Structures**: You are capable of generating deeply nested JSON, relational data, and complex object schemas.\<newline>'' @
     ''  3. **Data Types**: Respect requested types (Enums, Booleans, Floats, Dates). \<newline>'' @
     ''     - If a user asks for \"status (Active, Inactive)\", randomly assign these values.\<newline>'' @
     ''     - If a user asks for \"boolean\", output raw true/false.\<newline>'' @
     ''  4. **Quantity**: Adhere strictly to the requested number of items.\<newline>'' @
     ''  \<newline>'' @
     ''  \<newline>'' @
     ''  STRICT FORMATTING RULES:\<newline>'' @
     ''  1. **Date Format**: All date fields must strictly follow this format: ''"

definition instructionDateRules :: string where
  "instructionDateRules =
     ''. \<newline>'' @
     ''     - If \"Unix Timestamp\" is requested, return an integer (milliseconds since epoch).\<newline>'' @
     ''     - If \"ISO 8601\" is requested, use YYYY-MM-DDTHH:mm:ss.sssZ.\<newline>'' @
     ''  2. **Number Precision**: ''"

definition standardPrecision :: string where
  "standardPrecision = ''Use standard precision for numbers.''"

definition numberPrecision :: "string \<Rightarrow> string" where
  "numberPrecision places =
     (if places \<noteq> ''default'' then roundingInstruction places else standardPrecision)"

definition instructionFormatHeader :: string where
  "instructionFormatHeader =
     ''\<newline>'' @
     ''  \<newline>'' @
     ''\<newline>'' @
     ''  FORMAT SPECIFIC INSTRUCTIONS:\<newline>'' @
     ''  ''"

definition instructionEnd :: string where
  "instructionEnd = ''\<newline>'' @ ''  ''"

text \<open>
  A word is clear of a piece of text when it does not occur in the piece and the
  piece does not begin with a character that the word has after its first one. Then
  the word cannot occur across the seam where the piece is appended to another text.
\<close>

definition clear :: "'a list \<Rightarrow> 'a list \<Rightarrow> bool" where
  "clear w piece \<longleftrightarrow> \<not> sublist w piece \<and> (piece = [] \<or> hd piece \<notin> set (tl w))"

text \<open>
  A word is clear of the fixed text of \<^const>\<open>systemInstruction\<close>, and of the fixed text
  of the precision rule and of every string of digits.
\<close>

definition clearOfFixed :: "string \<Rightarrow> bool" where
  "clearOfFixed w \<longleftrightarrow>
     \<not> sublist w instructionHead \<and> clear w instructionDateRules \<and>
     clear w instructionFormatHeader \<and> clear w instructionEnd"

definition clearOfPrecision :: "string \<Rightarrow> bool" where
  "clearOfPrecision w \<longleftrightarrow>
     clear w roundingStem \<and> clear w roundingEnding \<and> clear w standardPrecision \<and>
     w \<noteq> [] \<and> list_all (\<lambda>c. c \<notin> set ''0123456789'') w"

text \<open>Reading a decimal numeral back, to say what number a notice shows.\<close>

definition digitValue :: "char \<Rightarrow> nat" where
  "digitValue c = length (takeWhile (\<lambda>d. d \<noteq> c) ''0123456789'')"

definition readNat :: "string \<Rightarrow> nat" where
  "readNat s = foldl (\<lambda>a c. 10 * a + digitValue c) 0 s"

section \<open>Properties of the export helpers\<close>

lemma getFileExtension_values:
  "getFileExtension JSON = ''json''" "getFileExtension CSV = ''csv''"
  "getFileExtension XML = ''xml''" "getFileExtension TXT = ''txt''"
  by (simp_all add: getFileExtension_def toLowerCase_def toLowerChar_def upperCase_def
      lowerCase_def JSON_def CSV_def XML_def TXT_def)

lemma getMimeType_values:
  "getMimeType JSON = ''application/json''" "getMimeType CSV = ''text/csv''"
  "getMimeType XML = ''application/xml''" "getMimeType TXT = ''text/plain''"
  by (simp_all add: getMimeType_def JSON_def CSV_def XML_def TXT_def)

lemma getMimeType_default:
  "fmt \<notin> set DataFormat_values \<Longrightarrow> getMimeType fmt = ''text/plain''"
  by (simp add: getMimeType_def DataFormat_values_def)

lemma downloadData_empty: "downloadData [] fmt w = w"
  by (simp add: downloadData_def)

lemma downloadData_saved:
  assumes "content \<noteq> []"
  shows "saved (downloadData content fmt w) =
    saved w @ [\<lparr>fileName = ''dummy-data.'' @ getFileExtension fmt,
                fileType = getMimeType fmt, fileBody = content\<rparr>]"
  using assms
  by (simp add: downloadData_def createObjectURL_def appendChild_def click_def
      removeChild_def revokeObjectURL_def Let_def)

lemma downloadData_cleanup:
  assumes "content \<noteq> []" and "\<forall>e \<in> set (objectURLs w). fst e \<noteq> nextURL w"
  shows "objectURLs (downloadData content fmt w) = objectURLs w"
    and "clipboard (downloadData content fmt w) = clipboard w"
  using assms
  by (simp_all add: downloadData_def createObjectURL_def appendChild_def click_def
      removeChild_def revokeObjectURL_def Let_def filter_id_conv)

text \<open>
  C8. \<^verbatim>\<open>downloadData(content, format)\<close> does nothing when the content is empty.
  Otherwise it saves one file holding the content, named \<^verbatim>\<open>dummy-data.\<close> followed by
  the lower-cased format, with the MIME type of \<^verbatim>\<open>getMimeType\<close>: application/json
  for JSON, text/csv for CSV, application/xml for XML, text/plain for TXT and for any
  other format value. For the four formats the extensions are json, csv, xml and txt.
\<close>

theorem downloadData_file:
  "(content = [] \<longrightarrow> downloadData content fmt w = w) \<and>
   (content \<noteq> [] \<longrightarrow>
      saved (downloadData content fmt w) =
        saved w @ [\<lparr>fileName = ''dummy-data.'' @ toLowerCase fmt,
                    fileType = getMimeType fmt, fileBody = content\<rparr>]) \<and>
   getMimeType JSON = ''application/json'' \<and> getMimeType CSV = ''text/csv'' \<and>
   getMimeType XML = ''application/xml'' \<and> getMimeType TXT = ''text/plain'' \<and>
   (fmt \<notin> {JSON, CSV, XML, TXT} \<longrightarrow> getMimeType fmt = ''text/plain'') \<and>
   toLowerCase JSON = ''json'' \<and> toLowerCase CSV = ''csv'' \<and>
   toLowerCase XML = ''xml'' \<and> toLowerCase TXT = ''txt''"
  using downloadData_empty [of fmt w] downloadData_saved [of content fmt w]
    getMimeType_values getFileExtension_values getMimeType_default [of fmt]
  by (simp add: getFileExtension_def DataFormat_values_def)

theorem downloadData_file_witness:
  "downloadData [] ''YAML'' \<lparr>nextURL = 0, objectURLs = [], body = [], saved = [], clipboard = []\<rparr> =
     \<lparr>nextURL = 0, objectURLs = [], body = [], saved = [], clipboard = []\<rparr> \<and>
   saved (downloadData ''a,b'' CSV
       \<lparr>nextURL = 0, objectURLs = [], body = [], saved = [], clipboard = []\<rparr>) =
     [\<lparr>fileName = ''dummy-data.csv'', fileType = ''text/csv'', fileBody = ''a,b''\<rparr>] \<and>
   saved (downloadData ''a: 1'' ''YAML''
       \<lparr>nextURL = 0, objectURLs = [], body = [], saved = [], clipboard = []\<rparr>) =
     [\<lparr>fileName = ''dummy-data.yaml'', fileType = ''text/plain'', fileBody = ''a: 1''\<rparr>]"
  using downloadData_file [of "[]" "''YAML''"
      "\<lparr>nextURL = 0, objectURLs = [], body = [], saved = [], clipboard = []\<rparr>"]
    downloadData_file [of "''a,b''" CSV
      "\<lparr>nextURL = 0, objectURLs = [], body = [], saved = [], clipboard = []\<rparr>"]
    downloadData_file [of "''a: 1''" "''YAML''"
      "\<lparr>nextURL = 0, objectURLs = [], body = [], saved = [], clipboard = []\<rparr>"]
  by (simp add: JSON_def CSV_def XML_def TXT_def toLowerCase_def toLowerChar_def
      upperCase_def lowerCase_def)

section \<open>Properties of the streaming client and of the generation handler\<close>

lemma dropWhile_hd_not: "dropWhile P xs = y # ys \<Longrightarrow> \<not> P y"
  by (metis hd_dropWhile list.distinct(1) list.sel(1))

lemma trim_empty_iff: "trim s = [] \<longleftrightarrow> (\<forall>c \<in> set s. isWhiteSpace c)"
proof
  assume "trim s = []"
  then have all: "\<forall>c \<in> set (dropWhile isWhiteSpace s). isWhiteSpace c"
    by (simp add: trim_def dropWhile_eq_Nil_conv)
  have "dropWhile isWhiteSpace s = []"
  proof (cases "dropWhile isWhiteSpace s")
    case Nil then show ?thesis .
  next
    case (Cons y ys)
    then have "\<not> isWhiteSpace y" by (rule dropWhile_hd_not)
    moreover have "isWhiteSpace y" using all Cons by simp
    ultimately show ?thesis by simp
  qed
  then show "\<forall>c \<in> set s. isWhiteSpace c" by (simp add: dropWhile_eq_Nil_conv)
next
  assume "\<forall>c \<in> set s. isWhiteSpace c"
  then show "trim s = []"
    by (auto simp: trim_def dest: set_dropWhileD)
qed

lemma fragments_Nil: "fragments [] = []"
  by (simp add: fragments_def List.map_filter_simps)

lemma fragments_Cons:
  "fragments (c # cs) =
     (case chunk_text c of None \<Rightarrow> fragments cs
      | Some t \<Rightarrow> if t = [] then fragments cs else t # fragments cs)"
  by (simp add: fragments_def List.map_filter_simps split: option.split)

lemma forAwait_foldl:
  "forAwait onChunk chunks s = foldl (\<lambda>s t. onChunk t s) s (fragments chunks)"
  by (induction chunks arbitrary: s) (simp_all add: fragments_Nil fragments_Cons split: option.split)

lemma forAwait_log:
  "forAwait (\<lambda>t log. log @ [t]) chunks log0 = log0 @ fragments chunks"
  by (induction chunks arbitrary: log0) (simp_all add: fragments_Nil fragments_Cons split: option.split)

lemma forAwait_appendChunk:
  "forAwait appendChunk chunks st =
     st\<lparr>generatedData := generatedData st @ concat (fragments chunks)\<rparr>"
  by (induction chunks arbitrary: st)
     (simp_all add: fragments_Nil fragments_Cons appendChunk_def split: option.split)

lemma tryBlock_state:
  "fst (tryBlock ai req onChunk s) = forAwait onChunk (received (ai req)) s"
  by (cases "ai req") (simp_all add: tryBlock_def)

lemma generateDummyData_state:
  "state (generateDummyData ai userPrompt fmt options onChunk s) =
     forAwait onChunk (received (ai (requestFor userPrompt fmt options))) s"
  using tryBlock_state [of ai "requestFor userPrompt fmt options" onChunk s]
  by (simp add: generateDummyData_def requestFor_def Let_def case_prod_beta)

lemma generateDummyData_requests:
  "requests (generateDummyData ai userPrompt fmt options onChunk s) =
     [requestFor userPrompt fmt options]"
  by (simp add: generateDummyData_def requestFor_def Let_def split: prod.split)

lemma generateDummyData_settled:
  "settled (generateDummyData ai userPrompt fmt options onChunk s) = Inr ()"
  by (simp add: generateDummyData_def Let_def split: prod.split)

lemma handleGenerate_blank:
  assumes "\<forall>c \<in> set (prompt st). isWhiteSpace c"
  shows "handleGenerate ai st =
    \<lparr>state = st\<lparr>error := Some ''Please enter a description for the data you want to generate.''\<rparr>,
     requests = [], console = [], settled = Inr ()\<rparr>"
proof -
  have "trim (prompt st) = []"
    using assms by (simp add: trim_empty_iff)
  then show ?thesis
    by (simp add: handleGenerate_def)
qed

lemma handleGenerate_state:
  assumes "\<not> (\<forall>c \<in> set (prompt st). isWhiteSpace c)"
  shows "state (handleGenerate ai st) =
    st\<lparr>isLoading := False, error := None,
       generatedData := concat (fragments (received (ai (requestFor (prompt st) (format st)
          \<lparr>dateFormat = dateFormat st, decimalPlaces = decimalPlaces st\<rparr>))))\<rparr>"
proof -
  have "trim (prompt st) \<noteq> []"
    using assms by (simp add: trim_empty_iff)
  then show ?thesis
    by (simp add: handleGenerate_def Let_def generateDummyData_settled
        generateDummyData_state forAwait_appendChunk)
qed

lemma handleGenerate_requests:
  assumes "\<not> (\<forall>c \<in> set (prompt st). isWhiteSpace c)"
  shows "requests (handleGenerate ai st) =
    [requestFor (prompt st) (format st) \<lparr>dateFormat = dateFormat st, decimalPlaces = decimalPlaces st\<rparr>]"
proof -
  have "trim (prompt st) \<noteq> []"
    using assms by (simp add: trim_empty_iff)
  then show ?thesis
    by (simp add: handleGenerate_def Let_def generateDummyData_requests)
qed


text \<open>
  C3. The streaming client hands every text fragment of the stream to \<^verbatim>\<open>onChunk\<close>
  once, one fragment at a time and in arrival order: whatever the callback does, the
  caller's state is the left fold of the callback over the fragments, and a callback
  that records its arguments records exactly the list of fragments, neither reordered
  nor merged. A chunk whose text is undefined or empty carries no fragment and is
  passed over by the guard \<^verbatim>\<open>if (chunk.text)\<close>.
\<close>

theorem generateDummyData_onChunk_in_order:
  "state (generateDummyData ai userPrompt fmt options onChunk s) =
     foldl (\<lambda>s t. onChunk t s) s
       (fragments (received (ai (requestFor userPrompt fmt options)))) \<and>
   state (generateDummyData ai userPrompt fmt options (\<lambda>t log. log @ [t]) []) =
     fragments (received (ai (requestFor userPrompt fmt options)))"
  by (simp add: generateDummyData_state forAwait_foldl [symmetric] forAwait_log)

theorem generateDummyData_onChunk_in_order_witness:
  "state (generateDummyData
      (\<lambda>req. Stream [Chunk (Some ''a''), Chunk None, Chunk (Some ''b''), Chunk (Some ''c'')] None)
      ''5 users'' JSON \<lparr>dateFormat = ''ISO 8601'', decimalPlaces = ''default''\<rparr>
      (\<lambda>t log. log @ [t]) []) = [''a'', ''b'', ''c'']"
  using generateDummyData_onChunk_in_order
    [of "\<lambda>req. Stream [Chunk (Some ''a''), Chunk None, Chunk (Some ''b''), Chunk (Some ''c'')] None"
        "''5 users''" JSON "\<lparr>dateFormat = ''ISO 8601'', decimalPlaces = ''default''\<rparr>"
        "\<lambda>t log. log @ [t]" "[]"]
  by (simp add: fragments_def List.map_filter_simps)

text \<open>
  C4. A submission whose prompt is empty or consists of white space only sends no
  request (\<^const>\<open>generateDummyData\<close> is not called) and sets the validation message,
  whatever the service would have answered.
\<close>

theorem handleGenerate_blank_prompt_no_call:
  assumes "\<forall>c \<in> set (prompt st). isWhiteSpace c"
  shows "requests (handleGenerate ai st) = [] \<and>
    error (state (handleGenerate ai st)) =
      Some ''Please enter a description for the data you want to generate.''"
  using handleGenerate_blank [OF assms, of ai] by simp

theorem handleGenerate_blank_prompt_no_call_witness:
  "trim (prompt (initialApp\<lparr>prompt := '' \<newline>  ''\<rparr>)) = [] \<and>
   requests (handleGenerate (\<lambda>req. Stream [Chunk (Some ''x'')] None)
      (initialApp\<lparr>prompt := '' \<newline>  ''\<rparr>)) = [] \<and>
   error (state (handleGenerate (\<lambda>req. Stream [Chunk (Some ''x'')] None)
      (initialApp\<lparr>prompt := '' \<newline>  ''\<rparr>))) =
     Some ''Please enter a description for the data you want to generate.''"
proof -
  have blank: "\<forall>c \<in> set (prompt (initialApp\<lparr>prompt := '' \<newline>  ''\<rparr>)). isWhiteSpace c"
    by (simp add: isWhiteSpace_def)
  show ?thesis
    using handleGenerate_blank_prompt_no_call
      [OF blank, of "\<lambda>req. Stream [Chunk (Some ''x'')] None"]
    by (simp add: trim_def isWhiteSpace_def)
qed

text \<open>
  C10. A submission rejected for its empty or white-space prompt changes nothing but
  the error message: the handler returns before any reset, so the data generated
  before and the loading flag are what they were.
\<close>

theorem handleGenerate_blank_prompt_atomic:
  assumes "\<forall>c \<in> set (prompt st). isWhiteSpace c"
  shows "state (handleGenerate ai st) =
      st\<lparr>error := Some ''Please enter a description for the data you want to generate.''\<rparr> \<and>
    generatedData (state (handleGenerate ai st)) = generatedData st \<and>
    isLoading (state (handleGenerate ai st)) = isLoading st"
  using handleGenerate_blank [OF assms, of ai] by simp

theorem handleGenerate_blank_prompt_atomic_witness:
  "trim (prompt (initialApp\<lparr>prompt := [], generatedData := ''[1, 2]'', isLoading := True\<rparr>)) = [] \<and>
   generatedData (state (handleGenerate (\<lambda>req. Rejected AuthError)
      (initialApp\<lparr>prompt := [], generatedData := ''[1, 2]'', isLoading := True\<rparr>))) = ''[1, 2]'' \<and>
   isLoading (state (handleGenerate (\<lambda>req. Rejected AuthError)
      (initialApp\<lparr>prompt := [], generatedData := ''[1, 2]'', isLoading := True\<rparr>)))"
proof -
  have blank: "\<forall>c \<in> set (prompt (initialApp\<lparr>prompt := [], generatedData := ''[1, 2]'',
      isLoading := True\<rparr>)). isWhiteSpace c"
    by simp
  show ?thesis
    using handleGenerate_blank_prompt_atomic
      [OF blank, of "\<lambda>req. Rejected AuthError"]
    by (simp add: trim_def)
qed

text \<open>
  C5. A generation starts from the empty string and appends the fragments as they
  arrive: afterwards the stored string is the concatenation of the fragments in their
  order of arrival, whatever was stored before the submission.
\<close>

theorem handleGenerate_accumulates:
  assumes "\<not> (\<forall>c \<in> set (prompt st). isWhiteSpace c)"
  shows "generatedData (state (handleGenerate ai st)) =
      concat (fragments (received (ai (requestFor (prompt st) (format st)
        \<lparr>dateFormat = dateFormat st, decimalPlaces = decimalPlaces st\<rparr>)))) \<and>
    generatedData (state (handleGenerate ai (st\<lparr>generatedData := old\<rparr>))) =
      generatedData (state (handleGenerate ai st))"
  using handleGenerate_state [OF assms, of ai]
    handleGenerate_state [of "st\<lparr>generatedData := old\<rparr>" ai] assms
  by simp

theorem handleGenerate_accumulates_witness:
  "trim (prompt (initialApp\<lparr>prompt := ''5 users'', generatedData := ''stale''\<rparr>)) = ''5 users'' \<and>
   generatedData (state (handleGenerate
      (\<lambda>req. Stream [Chunk (Some ''a''), Chunk (Some ''b''), Chunk (Some ''c'')] None)
      (initialApp\<lparr>prompt := ''5 users'', generatedData := ''stale''\<rparr>))) = ''abc''"
proof -
  have nonblank: "\<not> (\<forall>c \<in> set (prompt (initialApp\<lparr>prompt := ''5 users'',
      generatedData := ''stale''\<rparr>)). isWhiteSpace c)"
    by (simp add: isWhiteSpace_def)
  show ?thesis
    using handleGenerate_accumulates [OF nonblank,
        of "\<lambda>req. Stream [Chunk (Some ''a''), Chunk (Some ''b''), Chunk (Some ''c'')] None"]
    by (simp add: fragments_def List.map_filter_simps trim_def isWhiteSpace_def)
qed

text \<open>
  C1. A failure of the service is not passed on. When the request is rejected with a
  network error, the promise of \<^const>\<open>generateDummyData\<close> still resolves; the handler's
  \<^verbatim>\<open>catch\<close> clause is not entered and no error message is set, the error only reaches
  the console. The same holds for a quota error thrown in the middle of the stream,
  where the fragment already delivered stays in the stored string. One request is
  sent: there is no retry.
\<close>

theorem generateDummyData_swallows_failure:
  "settled (generateDummyData (\<lambda>req. Rejected NetworkError) ''test data'' JSON
      \<lparr>dateFormat = ''ISO 8601'', decimalPlaces = ''default''\<rparr> appendChunk initialApp) = Inr () \<and>
   error (state (handleGenerate (\<lambda>req. Rejected NetworkError) initialApp)) = None \<and>
   console (handleGenerate (\<lambda>req. Rejected NetworkError) initialApp) = [NetworkError] \<and>
   length (requests (handleGenerate (\<lambda>req. Rejected NetworkError) initialApp)) = 1 \<and>
   error (state (handleGenerate (\<lambda>req. Stream [Chunk (Some ''[{'')] (Some QuotaError))
      initialApp)) = None \<and>
   generatedData (state (handleGenerate (\<lambda>req. Stream [Chunk (Some ''[{'')] (Some QuotaError))
      initialApp)) = ''[{''"
proof -
  have nonblank: "trim (prompt initialApp) \<noteq> []"
    by (simp add: initialApp_def trim_def isWhiteSpace_def)
  show ?thesis
    using nonblank
    by (simp add: handleGenerate_def generateDummyData_def tryBlock_def appendChunk_def Let_def)
qed

section \<open>Properties of the display\<close>


lemma splitLines_nonempty: "splitLines s \<noteq> []"
  by (induction s) (auto split: list.split)

lemma splitLines_no_newline: "l \<in> set (splitLines s) \<Longrightarrow> CHR 0x0A \<notin> set l"
proof (induction s arbitrary: l)
  case Nil
  then show ?case by simp
next
  case (Cons c cs)
  show ?case
  proof (cases "c = CHR 0x0A")
    case True
    with Cons show ?thesis by auto
  next
    case False
    obtain k ks where ks: "splitLines cs = k # ks"
      using splitLines_nonempty [of cs] by (cases "splitLines cs") auto
    with Cons False show ?thesis by auto
  qed
qed

lemma splitLines_line: "CHR 0x0A \<notin> set l \<Longrightarrow> splitLines l = [l]"
  by (induction l) auto

lemma splitLines_append:
  "CHR 0x0A \<notin> set l \<Longrightarrow> splitLines (l @ CHR 0x0A # rest) = l # splitLines rest"
  by (induction l) auto

lemma splitLines_joinLines:
  "ls \<noteq> [] \<Longrightarrow> \<forall>l \<in> set ls. CHR 0x0A \<notin> set l \<Longrightarrow> splitLines (joinLines ls) = ls"
proof (induction ls rule: joinLines.induct)
  case 1
  then show ?case by simp
next
  case (2 l)
  then show ?case by (simp add: splitLines_line)
next
  case (3 l k ks)
  then show ?case by (simp add: splitLines_append)
qed

lemma joinLines_splitLines: "joinLines (splitLines s) = s"
proof (induction s)
  case Nil
  then show ?case by simp
next
  case (Cons c cs)
  obtain k ks where ks: "splitLines cs = k # ks"
    using splitLines_nonempty [of cs] by (cases "splitLines cs") auto
  show ?case
  proof (cases "c = CHR 0x0A")
    case True
    with Cons ks show ?thesis by simp
  next
    case False
    with Cons ks show ?thesis by (cases ks) auto
  qed
qed

lemma splitLines_take:
  assumes "0 < n"
  shows "splitLines (joinLines (take n (splitLines s))) = take n (splitLines s)"
proof (rule splitLines_joinLines)
  show "take n (splitLines s) \<noteq> []"
    using assms splitLines_nonempty [of s] by simp
  show "\<forall>l \<in> set (take n (splitLines s)). CHR 0x0A \<notin> set l"
    using splitLines_no_newline by (blast dest: in_set_takeD)
qed

lemma digitValue_digit: "k < 10 \<Longrightarrow> digitValue (''0123456789'' ! k) = k"
proof -
  assume "k < 10"
  then have "k \<in> {0, 1, 2, 3, 4, 5, 6, 7, 8, 9}" by auto
  then show ?thesis by (auto simp: digitValue_def)
qed

lemma readNat_snoc: "readNat (s @ [c]) = 10 * readNat s + digitValue c"
  by (simp add: readNat_def)

lemma readNat_showNat: "readNat (showNat n) = n"
proof (induction n rule: showNat.induct)
  case (1 n)
  show ?case
  proof (cases "n < 10")
    case True
    then show ?thesis
      by (subst showNat.simps) (simp add: readNat_def digitValue_digit)
  next
    case False
    with 1 have "readNat (showNat (n div 10)) = n div 10" by simp
    with False show ?thesis
      by (subst showNat.simps) (simp add: readNat_snoc digitValue_digit)
  qed
qed

lemma DataDisplay_truncated:
  assumes "50 < length (splitLines data)"
  shows "DataDisplay data loading fmt =
    Output (joinLines (take 50 (splitLines data)))
      (Some (''Displaying first 50 lines. '' @ showNat (length (splitLines data) - 50) @
             '' more line'' @ (if 1 < length (splitLines data) - 50 then ''s'' else []) @
             '' available in the full file.''))"
proof -
  have "data \<noteq> []"
    using assms by auto
  moreover have "nat (int (length (splitLines data)) - 50) = length (splitLines data) - 50"
    by simp
  moreover have "(1 < int (length (splitLines data)) - 50) = (1 < length (splitLines data) - 50)"
    by auto
  ultimately show ?thesis
    using assms by (simp add: DataDisplay_def Let_def showInt_def del: showNat.simps)
qed

lemma DataDisplay_short:
  assumes "data \<noteq> []" "length (splitLines data) \<le> 50"
  shows "DataDisplay data loading fmt = Output data None"
  using assms by (simp add: DataDisplay_def Let_def)

text \<open>
  C9. When the data has more than 50 lines, the component shows the first 50 lines and
  nothing else (splitting the text shown gives back exactly those lines), and the
  notice under it names the number of lines left out, which is the number of lines of
  the data beyond the first 50. Rendering is a function of the props and stores
  nothing: the lines of the data still join to the data, and the copy and download
  buttons deliver the whole data, not the text shown.
\<close>

theorem DataDisplay_truncates_view_only:
  assumes "50 < length (splitLines data)"
  shows "DataDisplay data loading fmt =
      Output (joinLines (take 50 (splitLines data)))
        (Some (''Displaying first 50 lines. '' @ showNat (length (splitLines data) - 50) @
               '' more line'' @ (if 1 < length (splitLines data) - 50 then ''s'' else []) @
               '' available in the full file.'')) \<and>
    splitLines (joinLines (take 50 (splitLines data))) = take 50 (splitLines data) \<and>
    length (drop 50 (splitLines data)) = length (splitLines data) - 50 \<and>
    readNat (showNat (length (splitLines data) - 50)) = length (drop 50 (splitLines data)) \<and>
    joinLines (splitLines data) = data \<and>
    clipboard (handleCopy data w) = data \<and>
    saved (handleDownload data fmt w) =
      saved w @ [\<lparr>fileName = ''dummy-data.'' @ getFileExtension fmt,
                  fileType = getMimeType fmt, fileBody = data\<rparr>]"
proof -
  have "data \<noteq> []"
    using assms by auto
  then show ?thesis
    using DataDisplay_truncated [OF assms, of loading fmt] splitLines_take [of 50 data]
      readNat_showNat [of "length (splitLines data) - 50"] joinLines_splitLines [of data]
      downloadData_saved [of data fmt w]
    by (simp add: handleCopy_def handleDownload_def del: showNat.simps)
qed


theorem DataDisplay_truncates_view_only_witness:
  "50 < length (splitLines (concat (replicate 52 ''ab\<newline>''))) \<and>
   DataDisplay (concat (replicate 52 ''ab\<newline>'')) False JSON =
     Output (joinLines (replicate 50 ''ab''))
       (Some ''Displaying first 50 lines. 3 more lines available in the full file.'') \<and>
   clipboard (handleCopy (concat (replicate 52 ''ab\<newline>''))
       \<lparr>nextURL = 0, objectURLs = [], body = [], saved = [], clipboard = []\<rparr>) =
     concat (replicate 52 ''ab\<newline>'')"
proof -
  have long: "50 < length (splitLines (concat (replicate 52 ''ab\<newline>'')))"
    by code_simp
  have shown: "take 50 (splitLines (concat (replicate 52 ''ab\<newline>''))) = replicate 50 ''ab''"
    by code_simp
  have count: "length (splitLines (concat (replicate 52 ''ab\<newline>''))) - 50 = 3"
    by code_simp
  have three: "showNat 3 = ''3''"
    by simp
  show ?thesis
    using long DataDisplay_truncates_view_only [OF long, of False JSON
        "\<lparr>nextURL = 0, objectURLs = [], body = [], saved = [], clipboard = []\<rparr>"]
    by (simp only: shown count three) simp
qed

section \<open>Properties of the prompt compiler\<close>

lemma systemInstruction_pieces:
  "systemInstruction fmt options =
     instructionHead @ CHR 0x22 # dateFormat options @ CHR 0x22 # instructionDateRules @
     numberPrecision (decimalPlaces options) @ instructionFormatHeader @
     specificInstructions fmt @ instructionEnd"
  by (simp add: systemInstruction_def formattingRules_def instructionHead_def
      instructionDateRules_def numberPrecision_def roundingInstruction_def roundingStem_def
      roundingEnding_def standardPrecision_def instructionFormatHeader_def instructionEnd_def)

lemma sublist_trans: "sublist u v \<Longrightarrow> sublist v w \<Longrightarrow> sublist u w"
  using sublist_order.order_trans by blast

lemma absent_by_word:
  assumes "\<not> sublist w s" and "sublist w l"
  shows "\<not> sublist l s"
  using assms sublist_trans by blast

subsection \<open>Words that cannot occur across a seam\<close>

lemma clear_append:
  assumes "clear w a" and "clear w b"
  shows "clear w (a @ b)"
proof -
  have "\<not> sublist w (a @ b)"
  proof
    assume "sublist w (a @ b)"
    then obtain w1 w2 where w: "w = w1 @ w2" and s: "suffix w1 a" and p: "prefix w2 b"
      using assms by (auto simp: sublist_append clear_def)
    show False
    proof (cases "w1 = [] \<or> w2 = []")
      case True
      then show False
        using w s p assms by (auto simp: clear_def)
    next
      case False
      then obtain x xs y ys where w1: "w1 = x # xs" and w2: "w2 = y # ys"
        by (cases w1; cases w2) auto
      from p w2 obtain bs where "b = y # bs"
        by (cases b) (auto simp: prefix_def)
      moreover have "y \<in> set (tl w)"
        using w w1 w2 by simp
      ultimately show False
        using assms(2) by (simp add: clear_def)
    qed
  qed
  moreover have "a @ b = [] \<or> hd (a @ b) \<notin> set (tl w)"
    using assms by (cases a) (auto simp: clear_def)
  ultimately show ?thesis
    by (simp add: clear_def)
qed

text \<open>A word without the character \<open>c\<close> cannot reach across an occurrence of \<open>c\<close>.\<close>

lemma sublist_separator:
  assumes "c \<notin> set w"
  shows "sublist w (a @ c # b) \<longleftrightarrow> sublist w a \<or> sublist w b"
proof
  assume "sublist w (a @ c # b)"
  then consider "sublist w a" | "sublist w (c # b)"
    | w1 w2 where "w = w1 @ w2" "suffix w1 a" "prefix w2 (c # b)"
    by (auto simp: sublist_append)
  then show "sublist w a \<or> sublist w b"
  proof cases
    case 1
    then show ?thesis by simp
  next
    case 2
    then have "prefix w (c # b) \<or> sublist w b"
      by (simp add: sublist_Cons_right)
    moreover have "w = []" if "prefix w (c # b)"
      using that assms by (cases w) auto
    ultimately show ?thesis by auto
  next
    case 3
    have "w2 = []"
      using 3(1,3) assms by (cases w2) auto
    with 3 show ?thesis by auto
  qed
next
  assume "sublist w a \<or> sublist w b"
  then show "sublist w (a @ c # b)"
    by (auto simp: sublist_append sublist_Cons_right)
qed

text \<open>The date format stands between quotation marks.\<close>

lemma quoted_date:
  assumes "CHR 0x22 \<notin> set w"
  shows "sublist w (systemInstruction fmt options) \<longleftrightarrow>
    sublist w instructionHead \<or> sublist w (dateFormat options) \<or>
    sublist w (instructionDateRules @ numberPrecision (decimalPlaces options) @
      instructionFormatHeader @ specificInstructions fmt @ instructionEnd)"
  unfolding systemInstruction_pieces
  by (simp only: sublist_separator [OF assms])

lemma clear_digits:
  assumes "digitsOnly p" and "w \<noteq> []" and "list_all (\<lambda>c. c \<notin> set ''0123456789'') w"
  shows "clear w p"
proof -
  have digits: "c \<in> set ''0123456789''" if "c \<in> set p" for c
    using assms(1) that unfolding digitsOnly_def list_all_iff by blast
  have others: "c \<notin> set ''0123456789''" if "c \<in> set w" for c
    using assms(3) that unfolding list_all_iff by blast
  have "\<not> sublist w p"
  proof
    assume "sublist w p"
    then have "set w \<subseteq> set p"
      by (rule set_mono_sublist)
    moreover have "hd w \<in> set w"
      using assms(2) by simp
    ultimately show False
      using digits others by blast
  qed
  moreover have "hd p \<notin> set (tl w)" if "p \<noteq> []"
  proof
    assume "hd p \<in> set (tl w)"
    then have "hd p \<in> set w"
      using assms(2) by (metis list.set_sel(2))
    moreover have "hd p \<in> set p"
      using that by simp
    ultimately show False
      using digits others by blast
  qed
  ultimately show ?thesis
    unfolding clear_def by blast
qed

lemma clear_numberPrecision:
  assumes "clearOfPrecision w" and "decimalPlacesValue p"
  shows "clear w (numberPrecision p)"
proof (cases "p = ''default''")
  case True
  with assms(1) show ?thesis
    by (simp add: numberPrecision_def clearOfPrecision_def)
next
  case False
  with assms(2) have "digitsOnly p"
    by (simp add: decimalPlacesValue_def)
  with assms(1) have "clear w p"
    by (intro clear_digits) (simp_all add: clearOfPrecision_def)
  with assms(1) have "clear w (roundingStem @ p @ roundingEnding)"
    by (intro clear_append) (simp_all add: clearOfPrecision_def)
  with False show ?thesis
    by (simp add: numberPrecision_def roundingInstruction_def)
qed

text \<open>
  A line without quotation marks that has a word clear of everything but the date
  format occurs in the compiled instruction only if it occurs in the date format.
\<close>

lemma absent_line:
  assumes "sublist w l" and "CHR 0x22 \<notin> set l"
    and "\<not> sublist l (dateFormat options)"
    and "clearOfFixed w"
    and "clear w (numberPrecision (decimalPlaces options))"
    and "clear w (specificInstructions fmt)"
  shows "\<not> sublist l (systemInstruction fmt options)"
proof -
  have "\<not> sublist w instructionHead"
    using assms(4) by (simp add: clearOfFixed_def)
  then have head: "\<not> sublist l instructionHead"
    using assms(1) by (rule absent_by_word)
  have "clear w (instructionDateRules @ numberPrecision (decimalPlaces options) @
      instructionFormatHeader @ specificInstructions fmt @ instructionEnd)"
    using assms(4-6) by (intro clear_append) (simp_all add: clearOfFixed_def)
  then have "\<not> sublist w (instructionDateRules @ numberPrecision (decimalPlaces options) @
      instructionFormatHeader @ specificInstructions fmt @ instructionEnd)"
    by (simp add: clear_def)
  then have rest: "\<not> sublist l (instructionDateRules @
      numberPrecision (decimalPlaces options) @ instructionFormatHeader @
      specificInstructions fmt @ instructionEnd)"
    using assms(1) by (rule absent_by_word)
  from head assms(3) rest show ?thesis
    by (simp only: quoted_date [OF assms(2)] simp_thms)
qed

lemmas template_text =
  clear_def clearOfFixed_def instructionHead_def instructionDateRules_def
  instructionFormatHeader_def instructionEnd_def sublist_code

lemmas precision_text =
  clear_def clearOfPrecision_def roundingStem_def roundingEnding_def standardPrecision_def
  sublist_code

lemmas format_text =
  clear_def specificInstructions_def JSON_def CSV_def XML_def TXT_def sublist_code

subsection \<open>A word of every instruction line that occurs nowhere else\<close>

lemma fixed_syntax: "clearOfFixed ''syntax''"
  by (simp add: template_text)

lemma precision_syntax: "clearOfPrecision ''syntax''"
  by (simp add: precision_text)

lemma format_syntax: "fmt \<noteq> JSON \<Longrightarrow> clear ''syntax'' (specificInstructions fmt)"
  by (simp add: format_text)

lemma fixed_Support: "clearOfFixed ''Support''"
  by (simp add: template_text)

lemma precision_Support: "clearOfPrecision ''Support''"
  by (simp add: precision_text)

lemma format_Support: "fmt \<noteq> JSON \<Longrightarrow> clear ''Support'' (specificInstructions fmt)"
  by (simp add: format_text)

lemma fixed_boolean: "clearOfFixed ''(boolean''"
  by (simp add: template_text)

lemma precision_boolean: "clearOfPrecision ''(boolean''"
  by (simp add: precision_text)

lemma format_boolean: "fmt \<noteq> JSON \<Longrightarrow> clear ''(boolean'' (specificInstructions fmt)"
  by (simp add: format_text)

lemma fixed_CSV: "clearOfFixed ''CSV''"
  by (simp add: template_text)

lemma precision_CSV: "clearOfPrecision ''CSV''"
  by (simp add: precision_text)

lemma format_CSV: "fmt \<noteq> CSV \<Longrightarrow> clear ''CSV'' (specificInstructions fmt)"
  by (simp add: format_text)

lemma fixed_flatten: "clearOfFixed ''flatten''"
  by (simp add: template_text)

lemma precision_flatten: "clearOfPrecision ''flatten''"
  by (simp add: precision_text)

lemma format_flatten: "fmt \<noteq> CSV \<Longrightarrow> clear ''flatten'' (specificInstructions fmt)"
  by (simp add: format_text)

lemma fixed_Enclose: "clearOfFixed ''Enclose''"
  by (simp add: template_text)

lemma precision_Enclose: "clearOfPrecision ''Enclose''"
  by (simp add: precision_text)

lemma format_Enclose: "fmt \<noteq> CSV \<Longrightarrow> clear ''Enclose'' (specificInstructions fmt)"
  by (simp add: format_text)

lemma fixed_XML: "clearOfFixed ''XML''"
  by (simp add: template_text)

lemma precision_XML: "clearOfPrecision ''XML''"
  by (simp add: precision_text)

lemma format_XML: "fmt \<noteq> XML \<Longrightarrow> clear ''XML'' (specificInstructions fmt)"
  by (simp add: format_text)

lemma fixed_semantic: "clearOfFixed ''semantic''"
  by (simp add: template_text)

lemma precision_semantic: "clearOfPrecision ''semantic''"
  by (simp add: precision_text)

lemma format_semantic: "fmt \<noteq> XML \<Longrightarrow> clear ''semantic'' (specificInstructions fmt)"
  by (simp add: format_text)

lemma fixed_Handle: "clearOfFixed ''Handle''"
  by (simp add: template_text)

lemma precision_Handle: "clearOfPrecision ''Handle''"
  by (simp add: precision_text)

lemma format_Handle: "fmt \<noteq> XML \<Longrightarrow> clear ''Handle'' (specificInstructions fmt)"
  by (simp add: format_text)

lemma fixed_paragraphs: "clearOfFixed ''paragraphs''"
  by (simp add: template_text)

lemma precision_paragraphs: "clearOfPrecision ''paragraphs''"
  by (simp add: precision_text)

lemma format_paragraphs: "fmt \<noteq> TXT \<Longrightarrow> clear ''paragraphs'' (specificInstructions fmt)"
  by (simp add: format_text)

subsection \<open>The instruction lines of a format\<close>

lemma splitLines_first: "prefix (hd (splitLines s)) s"
proof (induction s)
  case Nil
  then show ?case by simp
next
  case (Cons c cs)
  then show ?case by (cases "splitLines cs") auto
qed

lemma splitLines_sublist: "l \<in> set (splitLines s) \<Longrightarrow> sublist l s"
proof (induction s arbitrary: l)
  case Nil
  then show ?case by simp
next
  case (Cons c cs)
  show ?case
  proof (cases "c = CHR 0x0A")
    case True
    with Cons show ?thesis by (auto simp: sublist_Cons_right)
  next
    case False
    obtain k ks where ks: "splitLines cs = k # ks"
      using splitLines_nonempty [of cs] by (cases "splitLines cs") auto
    from Cons.prems False ks consider "l = c # k" | "l \<in> set ks"
      by auto
    then show ?thesis
    proof cases
      case 1
      have "prefix k cs"
        using splitLines_first [of cs] ks by simp
      with 1 show ?thesis by (simp add: sublist_Cons_right)
    next
      case 2
      with Cons.IH [of l] ks show ?thesis by (simp add: sublist_Cons_right)
    qed
  qed
qed

lemma guidance_sublist:
  assumes "l \<in> set (guidance fmt)"
  shows "sublist l (specificInstructions fmt)"
proof -
  from assms obtain l0 where l0: "l0 \<in> set (splitLines (specificInstructions fmt))"
    and l: "l = dropWhile (\<lambda>c. c = CHR '' '') l0"
    by (auto simp: guidance_def)
  have "sublist l l0"
    using l by simp
  with splitLines_sublist [OF l0] show ?thesis
    by (rule sublist_trans [rotated])
qed

lemma specificInstructions_sublist:
  "sublist (specificInstructions fmt) (systemInstruction fmt options)"
proof -
  have "systemInstruction fmt options =
      (instructionHead @ CHR 0x22 # dateFormat options @ CHR 0x22 # instructionDateRules @
       numberPrecision (decimalPlaces options) @ instructionFormatHeader) @
      specificInstructions fmt @ instructionEnd"
    by (simp add: systemInstruction_pieces)
  then show ?thesis
    by (simp only: sublist_appendI)
qed

lemma DataFormat_distinct:
  "JSON \<noteq> CSV" "JSON \<noteq> XML" "JSON \<noteq> TXT" "CSV \<noteq> XML" "CSV \<noteq> TXT" "XML \<noteq> TXT"
  by (simp_all add: JSON_def CSV_def XML_def TXT_def)

lemma carriesGuidance_line:
  assumes "\<not> carriesGuidance t" and "g \<in> set DataFormat_values" and "l \<in> set (guidance g)"
  shows "\<not> sublist l t"
  using assms unfolding carriesGuidance_def list_ex_iff by blast

lemma guidance_JSON:
  "guidance JSON =
     [''- Generate valid JSON syntax.'',
      ''- Support nested objects and arrays deeply if requested.'',
      ''- Use specific data types (boolean, numbers, null) correctly, do not wrap everything in strings unless necessary.'']"
  by code_simp

lemma foreign_JSON:
  assumes "fmt \<noteq> JSON" and "\<not> carriesGuidance (dateFormat options)"
    and "decimalPlacesValue (decimalPlaces options)"
    and "l \<in> set (guidance JSON)"
  shows "\<not> sublist l (systemInstruction fmt options)"
proof -
  have date: "\<not> sublist l (dateFormat options)"
    using assms(2) _ assms(4) by (rule carriesGuidance_line) (simp add: DataFormat_values_def)
  have "l = ''- Generate valid JSON syntax.'' \<or>
      l = ''- Support nested objects and arrays deeply if requested.'' \<or>
      l = ''- Use specific data types (boolean, numbers, null) correctly, do not wrap everything in strings unless necessary.''"
    using assms(4) by (simp only: guidance_JSON list.set insert_iff empty_iff simp_thms)
  then consider (1) "l = ''- Generate valid JSON syntax.''"
    | (2) "l = ''- Support nested objects and arrays deeply if requested.''"
    | (3) "l = ''- Use specific data types (boolean, numbers, null) correctly, do not wrap everything in strings unless necessary.''"
    by blast
  then show ?thesis
  proof cases
    case 1
    have word: "sublist ''syntax'' ''- Generate valid JSON syntax.''"
      by (simp add: sublist_code)
    have plain: "CHR 0x22 \<notin> set ''- Generate valid JSON syntax.''"
      by simp
    show ?thesis
      using word plain date fixed_syntax
        clear_numberPrecision [OF precision_syntax assms(3)] format_syntax [OF assms(1)]
      unfolding 1 by (rule absent_line)
  next
    case 2
    have word: "sublist ''Support'' ''- Support nested objects and arrays deeply if requested.''"
      by (simp add: sublist_code)
    have plain: "CHR 0x22 \<notin> set ''- Support nested objects and arrays deeply if requested.''"
      by simp
    show ?thesis
      using word plain date fixed_Support
        clear_numberPrecision [OF precision_Support assms(3)] format_Support [OF assms(1)]
      unfolding 2 by (rule absent_line)
  next
    case 3
    have word: "sublist ''(boolean'' ''- Use specific data types (boolean, numbers, null) correctly, do not wrap everything in strings unless necessary.''"
      by (simp add: sublist_code)
    have plain: "CHR 0x22 \<notin> set ''- Use specific data types (boolean, numbers, null) correctly, do not wrap everything in strings unless necessary.''"
      by simp
    show ?thesis
      using word plain date fixed_boolean
        clear_numberPrecision [OF precision_boolean assms(3)] format_boolean [OF assms(1)]
      unfolding 3 by (rule absent_line)
  qed
qed

lemma guidance_CSV:
  "guidance CSV =
     [''- Generate valid CSV with a header row.'',
      ''- If nested data is requested, flatten it using dot notation for headers (e.g., 'address.city') or understandable conventions.'',
      ''- Enclose strings containing commas in quotes.'']"
  by code_simp

lemma foreign_CSV:
  assumes "fmt \<noteq> CSV" and "\<not> carriesGuidance (dateFormat options)"
    and "decimalPlacesValue (decimalPlaces options)"
    and "l \<in> set (guidance CSV)"
  shows "\<not> sublist l (systemInstruction fmt options)"
proof -
  have date: "\<not> sublist l (dateFormat options)"
    using assms(2) _ assms(4) by (rule carriesGuidance_line) (simp add: DataFormat_values_def)
  have "l = ''- Generate valid CSV with a header row.'' \<or>
      l = ''- If nested data is requested, flatten it using dot notation for headers (e.g., 'address.city') or understandable conventions.'' \<or>
      l = ''- Enclose strings containing commas in quotes.''"
    using assms(4) by (simp only: guidance_CSV list.set insert_iff empty_iff simp_thms)
  then consider (1) "l = ''- Generate valid CSV with a header row.''"
    | (2) "l = ''- If nested data is requested, flatten it using dot notation for headers (e.g., 'address.city') or understandable conventions.''"
    | (3) "l = ''- Enclose strings containing commas in quotes.''"
    by blast
  then show ?thesis
  proof cases
    case 1
    have word: "sublist ''CSV'' ''- Generate valid CSV with a header row.''"
      by (simp add: sublist_code)
    have plain: "CHR 0x22 \<notin> set ''- Generate valid CSV with a header row.''"
      by simp
    show ?thesis
      using word plain date fixed_CSV
        clear_numberPrecision [OF precision_CSV assms(3)] format_CSV [OF assms(1)]
      unfolding 1 by (rule absent_line)
  next
    case 2
    have word: "sublist ''flatten'' ''- If nested data is requested, flatten it using dot notation for headers (e.g., 'address.city') or understandable conventions.''"
      by (simp add: sublist_code)
    have plain: "CHR 0x22 \<notin> set ''- If nested data is requested, flatten it using dot notation for headers (e.g., 'address.city') or understandable conventions.''"
      by simp
    show ?thesis
      using word plain date fixed_flatten
        clear_numberPrecision [OF precision_flatten assms(3)] format_flatten [OF assms(1)]
      unfolding 2 by (rule absent_line)
  next
    case 3
    have word: "sublist ''Enclose'' ''- Enclose strings containing commas in quotes.''"
      by (simp add: sublist_code)
    have plain: "CHR 0x22 \<notin> set ''- Enclose strings containing commas in quotes.''"
      by simp
    show ?thesis
      using word plain date fixed_Enclose
        clear_numberPrecision [OF precision_Enclose assms(3)] format_Enclose [OF assms(1)]
      unfolding 3 by (rule absent_line)
  qed
qed

lemma guidance_XML:
  "guidance XML =
     [''- Generate valid XML with a single root element (e.g., <root> or <data> if not specified).'',
      ''- Use semantic tags based on property names.'',
      ''- Handle nested structures as nested elements.'']"
  by code_simp

lemma foreign_XML:
  assumes "fmt \<noteq> XML" and "\<not> carriesGuidance (dateFormat options)"
    and "decimalPlacesValue (decimalPlaces options)"
    and "l \<in> set (guidance XML)"
  shows "\<not> sublist l (systemInstruction fmt options)"
proof -
  have date: "\<not> sublist l (dateFormat options)"
    using assms(2) _ assms(4) by (rule carriesGuidance_line) (simp add: DataFormat_values_def)
  have "l = ''- Generate valid XML with a single root element (e.g., <root> or <data> if not specified).'' \<or>
      l = ''- Use semantic tags based on property names.'' \<or>
      l = ''- Handle nested structures as nested elements.''"
    using assms(4) by (simp only: guidance_XML list.set insert_iff empty_iff simp_thms)
  then consider (1) "l = ''- Generate valid XML with a single root element (e.g., <root> or <data> if not specified).''"
    | (2) "l = ''- Use semantic tags based on property names.''"
    | (3) "l = ''- Handle nested structures as nested elements.''"
    by blast
  then show ?thesis
  proof cases
    case 1
    have word: "sublist ''XML'' ''- Generate valid XML with a single root element (e.g., <root> or <data> if not specified).''"
      by (simp add: sublist_code)
    have plain: "CHR 0x22 \<notin> set ''- Generate valid XML with a single root element (e.g., <root> or <data> if not specified).''"
      by simp
    show ?thesis
      using word plain date fixed_XML
        clear_numberPrecision [OF precision_XML assms(3)] format_XML [OF assms(1)]
      unfolding 1 by (rule absent_line)
  next
    case 2
    have word: "sublist ''semantic'' ''- Use semantic tags based on property names.''"
      by (simp add: sublist_code)
    have plain: "CHR 0x22 \<notin> set ''- Use semantic tags based on property names.''"
      by simp
    show ?thesis
      using word plain date fixed_semantic
        clear_numberPrecision [OF precision_semantic assms(3)] format_semantic [OF assms(1)]
      unfolding 2 by (rule absent_line)
  next
    case 3
    have word: "sublist ''Handle'' ''- Handle nested structures as nested elements.''"
      by (simp add: sublist_code)
    have plain: "CHR 0x22 \<notin> set ''- Handle nested structures as nested elements.''"
      by simp
    show ?thesis
      using word plain date fixed_Handle
        clear_numberPrecision [OF precision_Handle assms(3)] format_Handle [OF assms(1)]
      unfolding 3 by (rule absent_line)
  qed
qed

lemma guidance_TXT:
  "guidance TXT =
     [''- Format as plain text or structured text as requested (e.g., lists, paragraphs).'']"
  by code_simp

lemma foreign_TXT:
  assumes "fmt \<noteq> TXT" and "\<not> carriesGuidance (dateFormat options)"
    and "decimalPlacesValue (decimalPlaces options)"
    and "l \<in> set (guidance TXT)"
  shows "\<not> sublist l (systemInstruction fmt options)"
proof -
  have date: "\<not> sublist l (dateFormat options)"
    using assms(2) _ assms(4) by (rule carriesGuidance_line) (simp add: DataFormat_values_def)
  have "l = ''- Format as plain text or structured text as requested (e.g., lists, paragraphs).''"
    using assms(4) by (simp only: guidance_TXT list.set insert_iff empty_iff simp_thms)
  then consider (1) "l = ''- Format as plain text or structured text as requested (e.g., lists, paragraphs).''"
    by blast
  then show ?thesis
  proof cases
    case 1
    have word: "sublist ''paragraphs'' ''- Format as plain text or structured text as requested (e.g., lists, paragraphs).''"
      by (simp add: sublist_code)
    have plain: "CHR 0x22 \<notin> set ''- Format as plain text or structured text as requested (e.g., lists, paragraphs).''"
      by simp
    show ?thesis
      using word plain date fixed_paragraphs
        clear_numberPrecision [OF precision_paragraphs assms(3)] format_paragraphs [OF assms(1)]
      unfolding 1 by (rule absent_line)
  qed
qed


subsection \<open>The rounding instruction\<close>

lemma fixed_Round: "clearOfFixed ''Round''"
  by (simp add: template_text)

lemma format_Round: "clear ''Round'' (specificInstructions fmt)"
  by (simp add: format_text)

lemma standard_Round: "clear ''Round'' (numberPrecision ''default'')"
  by (simp add: numberPrecision_def clear_def standardPrecision_def sublist_code)

lemma roundingStem_Round: "sublist ''Round'' roundingStem"
  by (simp add: roundingStem_def sublist_code)

lemma roundingStem_plain: "CHR 0x22 \<notin> set roundingStem"
  by (simp add: roundingStem_def)

lemma roundingStem_absent:
  assumes "\<not> sublist roundingStem (dateFormat options)"
    and "decimalPlaces options = ''default''"
  shows "\<not> sublist roundingStem (systemInstruction fmt options)"
proof -
  have "clear ''Round'' (numberPrecision (decimalPlaces options))"
    using assms(2) standard_Round by simp
  with roundingStem_Round roundingStem_plain assms(1) fixed_Round
  show ?thesis
    using format_Round by (rule absent_line)
qed

lemma roundingInstruction_stem: "sublist roundingStem (roundingInstruction n)"
  by (simp add: roundingInstruction_def)

lemma roundingInstruction_present:
  assumes "decimalPlaces options \<noteq> ''default''"
  shows "sublist (roundingInstruction (decimalPlaces options)) (systemInstruction fmt options)"
proof -
  have "systemInstruction fmt options =
      (instructionHead @ CHR 0x22 # dateFormat options @ CHR 0x22 # instructionDateRules) @
      roundingInstruction (decimalPlaces options) @
      (instructionFormatHeader @ specificInstructions fmt @ instructionEnd)"
    using assms by (simp add: systemInstruction_pieces numberPrecision_def)
  then show ?thesis
    by (simp only: sublist_appendI)
qed

text \<open>
  The precision rule is a line of its own, and the letter R occurs in it once: a
  rounding instruction in that line begins where the line's own instruction begins.
\<close>

lemma decimalPlacesValue_chars:
  assumes "decimalPlacesValue n" and "c \<in> set n"
  shows "c \<in> set ''0123456789'' \<or> c \<in> set ''default''"
  using assms unfolding decimalPlacesValue_def digitsOnly_def list_all_iff by blast

lemma decimalPlacesValue_plain:
  assumes "decimalPlacesValue n"
  shows "CHR ''R'' \<notin> set n" and "CHR '' '' \<notin> set n"
    and "CHR 0x22 \<notin> set n" and "CHR 0x0A \<notin> set n"
proof -
  have "c \<notin> set n"
    if "c \<notin> set ''0123456789''" and "c \<notin> set ''default''" for c
    using decimalPlacesValue_chars [OF assms] that by blast
  then show "CHR ''R'' \<notin> set n" and "CHR '' '' \<notin> set n"
    and "CHR 0x22 \<notin> set n" and "CHR 0x0A \<notin> set n"
    by simp_all
qed

lemma spacefree_prefix:
  assumes "CHR '' '' \<notin> set n" and "CHR '' '' \<notin> set p"
    and "prefix (n @ CHR '' '' # e) (p @ CHR '' '' # e')"
  shows "n = p"
  using assms
proof (induction n arbitrary: p)
  case Nil
  then show ?case by (cases p) auto
next
  case (Cons x n)
  then show ?case by (cases p) auto
qed

lemma roundingInstruction_unique:
  assumes "decimalPlacesValue n" and "decimalPlacesValue p"
    and "sublist (roundingInstruction n) (''  2. **Number Precision**: '' @ roundingInstruction p)"
  shows "n = p"
proof -
  let ?stem = "''ound all floating-point numbers to exactly ''"
  have n: "roundingInstruction n = CHR ''R'' # ?stem @ n @ roundingEnding" for n
    by (simp add: roundingInstruction_def roundingStem_def)
  have "CHR ''R'' \<notin> set p"
    using assms(2) by (rule decimalPlacesValue_plain)
  then have once: "CHR ''R'' \<notin> set (?stem @ p @ roundingEnding)"
    by (simp add: roundingEnding_def)
  have before: "CHR ''R'' \<notin> set ''  2. **Number Precision**: ''"
    by simp
  from assms(3) obtain ps ss where
    "''  2. **Number Precision**: '' @ CHR ''R'' # ?stem @ p @ roundingEnding =
       ps @ CHR ''R'' # (?stem @ n @ roundingEnding) @ ss"
    unfolding n sublist_def by auto
  moreover have "CHR ''R'' \<notin> set ''  2. **Number Precision**: ''"
    by simp
  ultimately have "?stem @ p @ roundingEnding = (?stem @ n @ roundingEnding) @ ss"
    using once by (metis append_Cons_eq_iff)
  then have "prefix (n @ roundingEnding) (p @ roundingEnding)"
    by (simp add: prefix_def)
  moreover have "CHR '' '' \<notin> set n" "CHR '' '' \<notin> set p"
    using assms(1,2) by (simp_all add: decimalPlacesValue_plain)
  ultimately show ?thesis
    unfolding roundingEnding_def by (simp add: spacefree_prefix)
qed

lemma roundingInstruction_plain:
  assumes "decimalPlacesValue n"
  shows "CHR 0x22 \<notin> set (roundingInstruction n)" and "CHR 0x0A \<notin> set (roundingInstruction n)"
proof -
  have "CHR 0x22 \<notin> set n" "CHR 0x0A \<notin> set n"
    using assms by (simp_all add: decimalPlacesValue_plain)
  then show "CHR 0x22 \<notin> set (roundingInstruction n)"
    and "CHR 0x0A \<notin> set (roundingInstruction n)"
    by (simp_all add: roundingInstruction_def roundingStem_def roundingEnding_def)
qed

lemma instructionDateRules_last_line:
  "instructionDateRules =
     (''. \<newline>'' @
      ''     - If \"Unix Timestamp\" is requested, return an integer (milliseconds since epoch).\<newline>'' @
      ''     - If \"ISO 8601\" is requested, use YYYY-MM-DDTHH:mm:ss.sssZ.'') @
     CHR 0x0A # ''  2. **Number Precision**: ''"
  by (simp add: instructionDateRules_def)

lemma instructionFormatHeader_first_line:
  "instructionFormatHeader =
     CHR 0x0A # (''  \<newline>'' @ ''\<newline>'' @ ''  FORMAT SPECIFIC INSTRUCTIONS:\<newline>'' @ ''  '')"
  by (simp add: instructionFormatHeader_def)

lemma other_value_absent:
  assumes "\<not> sublist roundingStem (dateFormat options)"
    and "decimalPlacesValue (decimalPlaces options)"
    and "decimalPlaces options \<noteq> ''default''"
    and "decimalPlacesValue n" and "n \<noteq> decimalPlaces options"
  shows "\<not> sublist (roundingInstruction n) (systemInstruction fmt options)"
proof
  let ?p = "decimalPlaces options"
  let ?before = "''. \<newline>'' @
      ''     - If \"Unix Timestamp\" is requested, return an integer (milliseconds since epoch).\<newline>'' @
      ''     - If \"ISO 8601\" is requested, use YYYY-MM-DDTHH:mm:ss.sssZ.''"
  let ?after = "''  \<newline>'' @ ''\<newline>'' @ ''  FORMAT SPECIFIC INSTRUCTIONS:\<newline>'' @ ''  ''"
  assume occurs: "sublist (roundingInstruction n) (systemInstruction fmt options)"
  have round: "sublist ''Round'' (roundingInstruction n)"
    using roundingStem_Round roundingInstruction_stem by (rule sublist_trans)
  have "\<not> sublist ''Round'' instructionHead"
    using fixed_Round by (simp add: clearOfFixed_def)
  then have head: "\<not> sublist (roundingInstruction n) instructionHead"
    using round by (rule absent_by_word)
  have date: "\<not> sublist (roundingInstruction n) (dateFormat options)"
    using assms(1) roundingInstruction_stem by (rule absent_by_word)
  have "\<not> sublist ''Round'' ?before"
    by (simp add: sublist_code)
  then have before: "\<not> sublist (roundingInstruction n) ?before"
    using round by (rule absent_by_word)
  have "clear ''Round'' (instructionFormatHeader @ specificInstructions fmt @ instructionEnd)"
    using fixed_Round format_Round by (intro clear_append) (simp_all add: clearOfFixed_def)
  then have "\<not> sublist ''Round'' (?after @ specificInstructions fmt @ instructionEnd)"
    unfolding instructionFormatHeader_first_line clear_def
    by (simp add: sublist_Cons_right)
  then have after: "\<not> sublist (roundingInstruction n)
      (?after @ specificInstructions fmt @ instructionEnd)"
    using round by (rule absent_by_word)
  have "instructionDateRules @ numberPrecision ?p @ instructionFormatHeader @
      specificInstructions fmt @ instructionEnd =
    ?before @ CHR 0x0A # (''  2. **Number Precision**: '' @ roundingInstruction ?p) @
      CHR 0x0A # (?after @ specificInstructions fmt @ instructionEnd)"
    using assms(3)
    by (simp add: instructionDateRules_last_line instructionFormatHeader_first_line
        numberPrecision_def)
  with occurs head date have
    "sublist (roundingInstruction n)
      (?before @ CHR 0x0A # (''  2. **Number Precision**: '' @ roundingInstruction ?p) @
        CHR 0x0A # (?after @ specificInstructions fmt @ instructionEnd))"
    by (simp only: quoted_date [OF roundingInstruction_plain(1) [OF assms(4)]] simp_thms)
  with before after have
    "sublist (roundingInstruction n) (''  2. **Number Precision**: '' @ roundingInstruction ?p)"
    by (simp only: sublist_separator [OF roundingInstruction_plain(2) [OF assms(4)]] simp_thms)
  with assms(4,2) have "n = ?p"
    by (rule roundingInstruction_unique)
  with assms(5) show False
    by simp
qed

text \<open>
  C6. Let the date format not contain the stem of the rounding instruction ("Round all
  floating-point numbers to exactly "), as no date format of the form does. When
  \<^verbatim>\<open>decimalPlaces\<close> is \<^verbatim>\<open>"default"\<close>, the compiled instruction contains neither the
  stem nor, for any N, the rounding instruction. Otherwise it contains the rounding
  instruction for the requested N; and when the requested N is a string of digits, it
  contains the rounding instruction of no other value N of the data model. This holds
  for every format value.
\<close>

theorem rounding_instruction_iff_requested:
  assumes "\<not> sublist roundingStem (dateFormat options)"
  shows "(decimalPlaces options = ''default'' \<longrightarrow>
      \<not> sublist roundingStem (systemInstruction fmt options) \<and>
      (\<forall>n. \<not> sublist (roundingInstruction n) (systemInstruction fmt options))) \<and>
    (decimalPlaces options \<noteq> ''default'' \<longrightarrow>
      sublist (roundingInstruction (decimalPlaces options)) (systemInstruction fmt options)) \<and>
    (decimalPlaces options \<noteq> ''default'' \<longrightarrow> digitsOnly (decimalPlaces options) \<longrightarrow>
      (\<forall>n. decimalPlacesValue n \<longrightarrow> n \<noteq> decimalPlaces options \<longrightarrow>
         \<not> sublist (roundingInstruction n) (systemInstruction fmt options)))"
proof (intro conjI impI allI)
  assume "decimalPlaces options = ''default''"
  with assms show none: "\<not> sublist roundingStem (systemInstruction fmt options)"
    by (rule roundingStem_absent)
  show "\<not> sublist (roundingInstruction n) (systemInstruction fmt options)" for n
    using none roundingInstruction_stem by (rule absent_by_word)
next
  assume "decimalPlaces options \<noteq> ''default''"
  then show "sublist (roundingInstruction (decimalPlaces options)) (systemInstruction fmt options)"
    by (rule roundingInstruction_present)
next
  fix n
  assume "decimalPlaces options \<noteq> ''default''" and "digitsOnly (decimalPlaces options)"
    and "decimalPlacesValue n" and "n \<noteq> decimalPlaces options"
  with assms show "\<not> sublist (roundingInstruction n) (systemInstruction fmt options)"
    by (intro other_value_absent) (simp_all add: decimalPlacesValue_def)
qed

lemma dateFormatChoices_plain:
  "list_all (\<lambda>d. \<not> sublist roundingStem d \<and> \<not> carriesGuidance d) dateFormatChoices"
  by code_simp

lemma decimalPlacesChoices_values: "list_all decimalPlacesValue decimalPlacesChoices"
  by code_simp

theorem rounding_instruction_iff_requested_witness:
  "\<not> sublist roundingStem ''ISO 8601'' \<and>
   \<not> sublist (roundingInstruction ''2'')
      (systemInstruction JSON \<lparr>dateFormat = ''ISO 8601'', decimalPlaces = ''default''\<rparr>) \<and>
   sublist (roundingInstruction ''2'')
      (systemInstruction JSON \<lparr>dateFormat = ''ISO 8601'', decimalPlaces = ''2''\<rparr>) \<and>
   \<not> sublist (roundingInstruction ''3'')
      (systemInstruction JSON \<lparr>dateFormat = ''ISO 8601'', decimalPlaces = ''2''\<rparr>)"
proof -
  have date: "\<not> sublist roundingStem (dateFormat \<lparr>dateFormat = ''ISO 8601'', decimalPlaces = p\<rparr>)"
    for p
    using dateFormatChoices_plain by (simp add: dateFormatChoices_def)
  show ?thesis
    using date [of "[]"]
      rounding_instruction_iff_requested [OF date, of "''default''" JSON]
      rounding_instruction_iff_requested [OF date, of "''2''" JSON]
    by (simp add: decimalPlacesValue_def digitsOnly_def)
qed


subsection \<open>One format's instructions and no other's\<close>

lemma guidance_nonempty: "g \<in> set DataFormat_values \<Longrightarrow> guidance g \<noteq> []"
  by (auto simp: DataFormat_values_def guidance_JSON guidance_CSV guidance_XML guidance_TXT)

lemma foreign_guidance:
  assumes "g \<in> set DataFormat_values" and "fmt \<noteq> g"
    and "\<not> carriesGuidance (dateFormat options)"
    and "decimalPlacesValue (decimalPlaces options)"
    and "l \<in> set (guidance g)"
  shows "\<not> sublist l (systemInstruction fmt options)"
proof -
  from assms(1) consider "g = JSON" | "g = CSV" | "g = XML" | "g = TXT"
    by (auto simp: DataFormat_values_def)
  then show ?thesis
  proof cases
    case 1
    with assms show ?thesis by (simp add: foreign_JSON)
  next
    case 2
    with assms show ?thesis by (simp add: foreign_CSV)
  next
    case 3
    with assms show ?thesis by (simp add: foreign_XML)
  next
    case 4
    with assms show ?thesis by (simp add: foreign_TXT)
  qed
qed

lemma foreign_specificInstructions:
  assumes "g \<in> set DataFormat_values" and "fmt \<noteq> g"
    and "\<not> carriesGuidance (dateFormat options)"
    and "decimalPlacesValue (decimalPlaces options)"
  shows "\<not> sublist (specificInstructions g) (systemInstruction fmt options)"
proof -
  obtain l where l: "l \<in> set (guidance g)"
    using guidance_nonempty [OF assms(1)] by (cases "guidance g") auto
  have "\<not> sublist l (systemInstruction fmt options)"
    using assms l by (rule foreign_guidance)
  then show ?thesis
    using guidance_sublist [OF l] by (rule absent_by_word)
qed

text \<open>
  C7. Let the format be one of the four, let the date format carry no instruction
  line of a format itself (no date format of the form does) and let
  \<^verbatim>\<open>decimalPlaces\<close> be \<^verbatim>\<open>"default"\<close> or a string of digits. Then the compiled
  instruction contains the format-specific instructions of that format, as a block and
  line by line, and it contains neither the block nor any single line of the
  instructions of another format.
\<close>

theorem guidance_of_selected_format_only:
  assumes "fmt \<in> set DataFormat_values"
    and "\<not> carriesGuidance (dateFormat options)"
    and "decimalPlacesValue (decimalPlaces options)"
  shows "guidance fmt \<noteq> [] \<and>
    sublist (specificInstructions fmt) (systemInstruction fmt options) \<and>
    (\<forall>l \<in> set (guidance fmt). sublist l (systemInstruction fmt options)) \<and>
    (\<forall>g \<in> set DataFormat_values. g \<noteq> fmt \<longrightarrow>
       \<not> sublist (specificInstructions g) (systemInstruction fmt options) \<and>
       (\<forall>l \<in> set (guidance g). \<not> sublist l (systemInstruction fmt options)))"
proof (intro conjI ballI impI)
  show "guidance fmt \<noteq> []"
    using assms(1) by (rule guidance_nonempty)
  show "sublist (specificInstructions fmt) (systemInstruction fmt options)"
    by (rule specificInstructions_sublist)
  show "sublist l (systemInstruction fmt options)" if "l \<in> set (guidance fmt)" for l
    using guidance_sublist [OF that] specificInstructions_sublist by (rule sublist_trans)
  show "\<not> sublist (specificInstructions g) (systemInstruction fmt options)"
    if "g \<in> set DataFormat_values" "g \<noteq> fmt" for g
    using that assms(2,3) by (intro foreign_specificInstructions) auto
  show "\<not> sublist l (systemInstruction fmt options)"
    if "g \<in> set DataFormat_values" "g \<noteq> fmt" "l \<in> set (guidance g)" for g l
    using that assms(2,3) by (intro foreign_guidance [of g]) auto
qed

theorem guidance_of_selected_format_only_witness:
  "\<not> carriesGuidance ''YYYY-MM-DD'' \<and> decimalPlacesValue ''2'' \<and>
   sublist ''- Generate valid CSV with a header row.''
      (systemInstruction CSV \<lparr>dateFormat = ''YYYY-MM-DD'', decimalPlaces = ''2''\<rparr>) \<and>
   \<not> sublist ''- Generate valid JSON syntax.''
      (systemInstruction CSV \<lparr>dateFormat = ''YYYY-MM-DD'', decimalPlaces = ''2''\<rparr>) \<and>
   \<not> sublist (specificInstructions TXT)
      (systemInstruction CSV \<lparr>dateFormat = ''YYYY-MM-DD'', decimalPlaces = ''2''\<rparr>)"
proof -
  have date: "\<not> carriesGuidance ''YYYY-MM-DD''"
    using dateFormatChoices_plain by (simp add: dateFormatChoices_def)
  have places: "decimalPlacesValue ''2''"
    using decimalPlacesChoices_values by (simp add: decimalPlacesChoices_def)
  have "CSV \<in> set DataFormat_values"
    and "\<not> carriesGuidance (dateFormat \<lparr>dateFormat = ''YYYY-MM-DD'', decimalPlaces = ''2''\<rparr>)"
    and "decimalPlacesValue (decimalPlaces \<lparr>dateFormat = ''YYYY-MM-DD'', decimalPlaces = ''2''\<rparr>)"
    using date places by (simp_all add: DataFormat_values_def)
  from guidance_of_selected_format_only [OF this] date places show ?thesis
    by (simp add: DataFormat_values_def DataFormat_distinct DataFormat_distinct [symmetric]
        guidance_CSV guidance_JSON)
qed

lemma specificInstructions_unknown:
  "fmt \<notin> set DataFormat_values \<Longrightarrow> specificInstructions fmt = []"
  by (simp add: specificInstructions_def DataFormat_values_def)

text \<open>
  C2, as the code has it. Compiling the prompt is a total function of its arguments and
  cannot fail. For a format outside the four, the format-specific part is empty: the
  compiled instruction ends with the header of the format-specific instructions and
  nothing under it, and unless the date format carries one itself, it contains no
  instruction line of any of the four formats, the plain-text one included.
\<close>

theorem unknown_format_no_guidance:
  assumes "fmt \<notin> set DataFormat_values"
  shows "specificInstructions fmt = [] \<and> guidance fmt = [] \<and>
    systemInstruction fmt options =
      instructionHead @ CHR 0x22 # dateFormat options @ CHR 0x22 # instructionDateRules @
      numberPrecision (decimalPlaces options) @ instructionFormatHeader @ instructionEnd \<and>
    (\<not> carriesGuidance (dateFormat options) \<longrightarrow>
     decimalPlacesValue (decimalPlaces options) \<longrightarrow>
       (\<forall>g \<in> set DataFormat_values. \<forall>l \<in> set (guidance g).
          \<not> sublist l (systemInstruction fmt options)))"
proof (intro conjI impI ballI)
  show none: "specificInstructions fmt = []"
    using assms by (rule specificInstructions_unknown)
  then show "guidance fmt = []"
    by (simp add: guidance_def)
  show "systemInstruction fmt options =
      instructionHead @ CHR 0x22 # dateFormat options @ CHR 0x22 # instructionDateRules @
      numberPrecision (decimalPlaces options) @ instructionFormatHeader @ instructionEnd"
    using none by (simp add: systemInstruction_pieces)
  show "\<not> sublist l (systemInstruction fmt options)"
    if "\<not> carriesGuidance (dateFormat options)"
      "decimalPlacesValue (decimalPlaces options)"
      "g \<in> set DataFormat_values" "l \<in> set (guidance g)" for g l
    using that assms by (intro foreign_guidance [of g]) auto
qed

theorem unknown_format_no_guidance_witness:
  "specificInstructions ''YAML'' = [] \<and>
   \<not> sublist ''- Generate valid JSON syntax.''
     (systemInstruction ''YAML'' \<lparr>dateFormat = ''ISO 8601'', decimalPlaces = ''default''\<rparr>) \<and>
   \<not> sublist ''- Generate valid CSV with a header row.''
     (systemInstruction ''YAML'' \<lparr>dateFormat = ''ISO 8601'', decimalPlaces = ''default''\<rparr>)"
proof -
  have yaml: "''YAML'' \<notin> set DataFormat_values"
    by (simp add: DataFormat_values_def JSON_def CSV_def XML_def TXT_def)
  have choices:
    "\<not> carriesGuidance (dateFormat \<lparr>dateFormat = ''ISO 8601'', decimalPlaces = ''default''\<rparr>)"
    "decimalPlacesValue (decimalPlaces \<lparr>dateFormat = ''ISO 8601'', decimalPlaces = ''default''\<rparr>)"
    using dateFormatChoices_plain decimalPlacesChoices_values
    by (simp_all add: dateFormatChoices_def decimalPlacesChoices_def)
  have formats: "JSON \<in> set DataFormat_values" "CSV \<in> set DataFormat_values"
    by (simp_all add: DataFormat_values_def)
  have lines: "''- Generate valid JSON syntax.'' \<in> set (guidance JSON)"
    "''- Generate valid CSV with a header row.'' \<in> set (guidance CSV)"
    by (simp_all only: guidance_JSON guidance_CSV list.set insert_iff simp_thms)
  note unknown = unknown_format_no_guidance [OF yaml,
      of "\<lparr>dateFormat = ''ISO 8601'', decimalPlaces = ''default''\<rparr>"]
  from unknown have "specificInstructions ''YAML'' = []"
    by (rule conjunct1)
  moreover from unknown choices formats lines
  have "\<not> sublist ''- Generate valid JSON syntax.''
     (systemInstruction ''YAML'' \<lparr>dateFormat = ''ISO 8601'', decimalPlaces = ''default''\<rparr>)"
    by blast
  moreover from unknown choices formats lines
  have "\<not> sublist ''- Generate valid CSV with a header row.''
     (systemInstruction ''YAML'' \<lparr>dateFormat = ''ISO 8601'', decimalPlaces = ''default''\<rparr>)"
    by blast
  ultimately show ?thesis
    by (intro conjI)
qed

text \<open>
  There is no fall-back to the plain-text instructions: for the format \<^verbatim>\<open>"YAML"\<close> the
  format-specific part is empty, it is not the part of TXT, and the plain-text
  instruction does not occur in the compiled instruction.
\<close>

theorem unknown_format_fallback_counterexample:
  "specificInstructions ''YAML'' = [] \<and>
   specificInstructions ''YAML'' \<noteq> specificInstructions TXT \<and>
   \<not> sublist ''- Format as plain text or structured text as requested (e.g., lists, paragraphs).''
     (systemInstruction ''YAML'' \<lparr>dateFormat = ''ISO 8601'', decimalPlaces = ''default''\<rparr>)"
proof -
  have yaml: "''YAML'' \<noteq> TXT"
    by (simp add: TXT_def)
  have choices:
    "\<not> carriesGuidance (dateFormat \<lparr>dateFormat = ''ISO 8601'', decimalPlaces = ''default''\<rparr>)"
    "decimalPlacesValue (decimalPlaces \<lparr>dateFormat = ''ISO 8601'', decimalPlaces = ''default''\<rparr>)"
    using dateFormatChoices_plain decimalPlacesChoices_values
    by (simp_all add: dateFormatChoices_def decimalPlacesChoices_def)
  have line: "''- Format as plain text or structured text as requested (e.g., lists, paragraphs).''
      \<in> set (guidance TXT)"
    by (simp only: guidance_TXT list.set insert_iff simp_thms)
  have "specificInstructions ''YAML'' = []"
    by (simp add: specificInstructions_def JSON_def CSV_def XML_def TXT_def)
  moreover have "specificInstructions TXT \<noteq> []"
    by (simp add: specificInstructions_def JSON_def CSV_def XML_def TXT_def)
  moreover have "\<not> sublist ''- Format as plain text or structured text as requested (e.g., lists, paragraphs).''
     (systemInstruction ''YAML'' \<lparr>dateFormat = ''ISO 8601'', decimalPlaces = ''default''\<rparr>)"
    using yaml choices line by (rule foreign_TXT)
  ultimately show ?thesis
    by simp
qed

end
